theory Spec2Isabelle
  imports Main
begin

section \<open>Forward mode\<close>

text \<open>
  \<^verbatim>\<open>class ForwardMode(IntEnum)\<close> has four members, numbered by \<^verbatim>\<open>auto()\<close> from 1 in
  the order they are written. A member is built from an integer by the enum's value
  lookup, which raises \<^verbatim>\<open>ValueError\<close> for an integer that is no member's value. The
  predicates compare with \<^verbatim>\<open>==\<close>, which on an \<^verbatim>\<open>IntEnum\<close> compares the integer values.
\<close>

datatype ForwardMode = PREFILL | EXTEND | DECODE | MIXED

text \<open>
  The exceptions that assembly, and the numpy and torch calls it makes, can raise.
\<close>

datatype py_error =
  TypeError | IndexError | ValueError | RuntimeError | OverflowError | MemoryError

fun ForwardMode_value :: "ForwardMode \<Rightarrow> int" where
  "ForwardMode_value PREFILL = 1"
| "ForwardMode_value EXTEND = 2"
| "ForwardMode_value DECODE = 3"
| "ForwardMode_value MIXED = 4"

definition ForwardMode_of_value :: "int \<Rightarrow> py_error + ForwardMode" where
  "ForwardMode_of_value v =
     (if v = 1 then Inr PREFILL
      else if v = 2 then Inr EXTEND
      else if v = 3 then Inr DECODE
      else if v = 4 then Inr MIXED
      else Inl ValueError)"

definition is_prefill :: "ForwardMode \<Rightarrow> bool" where
  "is_prefill self = (ForwardMode_value self = ForwardMode_value PREFILL)"

definition is_extend :: "ForwardMode \<Rightarrow> bool" where
  "is_extend self =
     (ForwardMode_value self = ForwardMode_value EXTEND
      \<or> ForwardMode_value self = ForwardMode_value MIXED)"

definition is_decode :: "ForwardMode \<Rightarrow> bool" where
  "is_decode self = (ForwardMode_value self = ForwardMode_value DECODE)"

definition is_mixed :: "ForwardMode \<Rightarrow> bool" where
  "is_mixed self = (ForwardMode_value self = ForwardMode_value MIXED)"

section \<open>Tensors and the array operations the assembler calls\<close>

text \<open>
  A tensor is one-dimensional here. An integer tensor is its dtype and its elements,
  read as Python integers (what \<^verbatim>\<open>tolist()\<close> gives); arithmetic on it wraps around at
  the width of the dtype. The only float tensor that can arise is the empty one that
  \<^verbatim>\<open>torch.tensor([])\<close> returns. The device a tensor lives on does not enter any result
  and is left out.
\<close>

datatype dtype = Int32 | Int64

datatype tensor = IntTensor dtype "int list" | EmptyFloat32

fun wrap_dtype :: "dtype \<Rightarrow> int \<Rightarrow> int" where
  "wrap_dtype Int32 x = signed_take_bit 31 x"
| "wrap_dtype Int64 x = signed_take_bit 63 x"

definition int64_range :: "int \<Rightarrow> bool" where
  "int64_range x = (- (2 ^ 63) \<le> x \<and> x < 2 ^ 63)"

fun tolist :: "tensor \<Rightarrow> int list" where
  "tolist (IntTensor d xs) = xs"
| "tolist EmptyFloat32 = []"

definition numel :: "tensor \<Rightarrow> nat" where
  "numel t = length (tolist t)"

text \<open>\<^verbatim>\<open>t - k\<close> for a Python integer \<^verbatim>\<open>k\<close>: elementwise, in the dtype of \<^verbatim>\<open>t\<close>.\<close>

fun tensor_sub_scalar :: "tensor \<Rightarrow> int \<Rightarrow> tensor" where
  "tensor_sub_scalar (IntTensor d xs) k = IntTensor d (map (\<lambda>x. wrap_dtype d (x - k)) xs)"
| "tensor_sub_scalar EmptyFloat32 k = EmptyFloat32"

text \<open>\<^verbatim>\<open>t.to(torch.int64)\<close>: widening an integer tensor keeps every value.\<close>

fun tensor_to_int64 :: "tensor \<Rightarrow> tensor" where
  "tensor_to_int64 (IntTensor d xs) = IntTensor Int64 xs"
| "tensor_to_int64 EmptyFloat32 = IntTensor Int64 []"

text \<open>
  \<^verbatim>\<open>torch.tensor(xs, device="cuda")\<close> for a host list of Python integers, or \<^verbatim>\<open>None\<close>:
  \<^verbatim>\<open>None\<close> has no dtype (RuntimeError), the empty list gives the empty float tensor,
  any other list an int64 tensor, unless an entry does not fit 64 bits (RuntimeError,
  "Overflow when unpacking long").
\<close>

definition torch_tensor :: "int list option \<Rightarrow> py_error + tensor" where
  "torch_tensor v =
     (case v of
        None \<Rightarrow> Inl RuntimeError
      | Some xs \<Rightarrow>
          if xs = [] then Inr EmptyFloat32
          else if list_all int64_range xs then Inr (IntTensor Int64 xs)
          else Inl RuntimeError)"

fun zeros_like :: "tensor \<Rightarrow> tensor" where
  "zeros_like (IntTensor d xs) = IntTensor d (replicate (length xs) 0)"
| "zeros_like EmptyFloat32 = EmptyFloat32"

text \<open>The slice \<^verbatim>\<open>t[:-1]\<close>: all but the last element.\<close>

fun slice_to_last :: "tensor \<Rightarrow> tensor" where
  "slice_to_last (IntTensor d xs) = IntTensor d (butlast xs)"
| "slice_to_last EmptyFloat32 = EmptyFloat32"

text \<open>
  \<^verbatim>\<open>torch.cumsum(t, dim=0)\<close>: the running sums. For an integer tensor the result is
  int64 and each addition wraps around at 64 bits.
\<close>

fun cumsum_from :: "int \<Rightarrow> int list \<Rightarrow> int list" where
  "cumsum_from acc [] = []"
| "cumsum_from acc (x # xs) =
     (let s = wrap_dtype Int64 (acc + x) in s # cumsum_from s xs)"

fun torch_cumsum :: "tensor \<Rightarrow> tensor" where
  "torch_cumsum (IntTensor d xs) = IntTensor Int64 (cumsum_from 0 xs)"
| "torch_cumsum EmptyFloat32 = EmptyFloat32"

text \<open>
  The slice assignment \<^verbatim>\<open>dst[1:] = src\<close>, written in place into \<^verbatim>\<open>dst\<close>: the first
  element of \<^verbatim>\<open>dst\<close> stays and the rest is replaced by \<^verbatim>\<open>src\<close>, converted to the dtype
  of \<^verbatim>\<open>dst\<close>. The assembler only calls it with \<^verbatim>\<open>src\<close> as long as \<^verbatim>\<open>dst[1:]\<close>.
\<close>

fun setitem_from_1 :: "tensor \<Rightarrow> tensor \<Rightarrow> tensor" where
  "setitem_from_1 (IntTensor d xs) src = IntTensor d (take 1 xs @ map (wrap_dtype d) (tolist src))"
| "setitem_from_1 EmptyFloat32 src = EmptyFloat32"

text \<open>
  A numpy array is one-dimensional here. The assembler builds its arrays with
  \<^verbatim>\<open>np.arange\<close>, which gives an int64 array for bounds that are ordinary lengths. For
  other bounds numpy may give an array of another dtype (unsigned, float or object);
  such an array is kept as the bounds it was built from.
\<close>

datatype ndarray = Int64Array "int list" | OtherArray int int

text \<open>
  What numpy and torch do outside the range of bounds modelled below is not in the
  sources and differs with the bounds: for a start of \<open>-2^62\<close> \<^verbatim>\<open>np.arange\<close> raises
  \<^verbatim>\<open>ValueError\<close> (the array would be too big), for \<open>-2^63\<close> its length computation
  overflows and the array is empty, and for a start that does not fit 64 bits it
  returns an array that is not int64, which \<^verbatim>\<open>torch.tensor\<close> may refuse. This behaviour
  is a parameter of the model: \<open>arange_other\<close> is the outcome of \<^verbatim>\<open>np.arange(start, stop)\<close>
  for such a start, and \<open>tensor_other\<close> the outcome of
  \<^verbatim>\<open>torch.tensor(np.concatenate(arrays, axis=0), device="cuda").to(torch.int64)\<close> for
  arrays that are not all int64.
\<close>

record library =
  arange_other :: "int \<Rightarrow> int \<Rightarrow> py_error + ndarray"
  tensor_other :: "ndarray list \<Rightarrow> py_error + tensor"

text \<open>A start that is an ordinary length: not negative, and within 64 bits.\<close>

definition nonneg_int64 :: "int \<Rightarrow> bool" where
  "nonneg_int64 x = (0 \<le> x \<and> x < 2 ^ 63)"

text \<open>
  \<^verbatim>\<open>np.arange(start, stop)\<close> for a Python integer \<^verbatim>\<open>start\<close> and a \<^verbatim>\<open>stop\<close> that is the
  \<^verbatim>\<open>len()\<close> of a list: for a start that is an ordinary length, the ascending run
  \<^verbatim>\<open>start, ..., stop - 1\<close> as an int64 array, empty when \<^verbatim>\<open>stop <= start\<close>; the run is then
  no longer than the list whose length \<^verbatim>\<open>stop\<close> is. For any other start, what the
  library does.
\<close>

definition np_arange :: "library \<Rightarrow> int \<Rightarrow> nat \<Rightarrow> py_error + ndarray" where
  "np_arange lib start stop =
     (if nonneg_int64 start then Inr (Int64Array [start..int stop - 1])
      else arange_other lib start (int stop))"

text \<open>
  \<^verbatim>\<open>np.concatenate(arrays, axis=0)\<close> of int64 arrays; it raises \<^verbatim>\<open>ValueError\<close> for an empty
  list of arrays.
\<close>

definition np_concatenate :: "int list list \<Rightarrow> py_error + int list" where
  "np_concatenate arrays = (if arrays = [] then Inl ValueError else Inr (concat arrays))"

text \<open>The contents of the arrays of a list, when all of them are int64.\<close>

fun int64_arrays :: "ndarray list \<Rightarrow> int list list option" where
  "int64_arrays [] = Some []"
| "int64_arrays (Int64Array xs # rest) = map_option ((#) xs) (int64_arrays rest)"
| "int64_arrays (OtherArray start stop # rest) = None"

text \<open>
  The expression of lines 117 to 126 applied to the list of arrays:
  \<^verbatim>\<open>torch.tensor(np.concatenate(arrays, axis=0), device="cuda").to(torch.int64)\<close>. For
  int64 arrays the tensor holds their concatenation; otherwise the outcome is the
  library's.
\<close>

definition positions_tensor :: "library \<Rightarrow> ndarray list \<Rightarrow> py_error + tensor" where
  "positions_tensor lib arrays =
     (case int64_arrays arrays of
        Some xss \<Rightarrow>
          (case np_concatenate xss of
             Inl e \<Rightarrow> Inl e
           | Inr ps \<Rightarrow> Inr (tensor_to_int64 (IntTensor Int64 ps)))
      | None \<Rightarrow> tensor_other lib arrays)"

section \<open>The scheduler's batch and the metadata record\<close>

datatype ImageInputs = ImageInputs nat

record Req =
  fill_ids :: "int list"
  lora_path :: "string option"
  image_inputs :: "ImageInputs option"

text \<open>
  The fields of \<^verbatim>\<open>ScheduleBatch\<close> that \<^verbatim>\<open>from_schedule_batch\<close> reads. The record is
  polymorphic in how a tensor is held: the tensor itself, or its address in a store.
  The three host lists default to \<^verbatim>\<open>None\<close>.
\<close>

record 't ScheduleBatch =
  forward_mode :: ForwardMode
  reqs :: "Req list"
  input_ids :: 't
  req_pool_indices :: 't
  seq_lens :: 't
  out_cache_loc :: 't
  return_logprob :: bool
  top_logprobs_nums :: "int list option"
  prefix_lens_cpu :: "int list option"
  extend_lens_cpu :: "int list option"
  extend_logprob_start_lens_cpu :: "int list option"

text \<open>
  Modelled from the spec: \<^verbatim>\<open>ScheduleBatch.batch_size()\<close> is not among the sources; the
  spec gives \<^verbatim>\<open>batch_size\<close> as the count of requests in this pass.
\<close>

definition ScheduleBatch_batch_size :: "'t ScheduleBatch \<Rightarrow> nat" where
  "ScheduleBatch_batch_size batch = length (reqs batch)"

record 't InputMetadata =
  forward_mode :: ForwardMode
  batch_size :: nat
  input_ids :: 't
  req_pool_indices :: 't
  seq_lens :: 't
  out_cache_loc :: 't
  positions :: "'t option"
  extend_seq_lens :: "'t option"
  extend_prefix_lens :: "'t option"
  extend_start_loc :: "'t option"
  return_logprob :: bool
  top_logprobs_nums :: "int list option"
  extend_seq_lens_cpu :: "int list option"
  extend_logprob_start_lens_cpu :: "int list option"
  image_inputs :: "ImageInputs option list option"
  lora_paths :: "string option list option"
  req_to_token_pool :: "nat option"
  token_to_kv_pool :: "nat option"
  attn_backend :: "nat option"

section \<open>Assembly\<close>

text \<open>
  The list comprehension of lines 119 to 122: request number \<^verbatim>\<open>i\<close> contributes
  \<^verbatim>\<open>np.arange(batch.prefix_lens_cpu[i], len(req.fill_ids))\<close>. Subscripting \<^verbatim>\<open>None\<close> is a
  \<^verbatim>\<open>TypeError\<close>, an index past the end of the list an \<^verbatim>\<open>IndexError\<close>.
\<close>

fun position_ranges ::
    "library \<Rightarrow> int list option \<Rightarrow> nat \<Rightarrow> Req list \<Rightarrow> py_error + ndarray list" where
  "position_ranges lib pl i [] = Inr []"
| "position_ranges lib pl i (req # rest) =
     (case pl of
        None \<Rightarrow> Inl TypeError
      | Some xs \<Rightarrow>
          if i < length xs then
            (case np_arange lib (xs ! i) (length (fill_ids req)) of
               Inl e \<Rightarrow> Inl e
             | Inr a \<Rightarrow>
                 (case position_ranges lib pl (Suc i) rest of
                    Inl e \<Rightarrow> Inl e
                  | Inr as \<Rightarrow> Inr (a # as)))
          else Inl IndexError)"

text \<open>
  \<^verbatim>\<open>InputMetadata.from_schedule_batch\<close>, on tensors as values. The constructor call fills
  the fields every mode has and leaves the others at their default \<^verbatim>\<open>None\<close>; the decode
  branch sets \<^verbatim>\<open>positions\<close>; the other branch sets \<^verbatim>\<open>positions\<close>, \<^verbatim>\<open>image_inputs\<close> and the
  extend fields, in the order of the source, so that the first call that raises decides
  the error.
\<close>

definition from_schedule_batch ::
    "library \<Rightarrow> tensor ScheduleBatch \<Rightarrow> py_error + tensor InputMetadata" where
  "from_schedule_batch lib batch =
     (let ret = \<lparr>forward_mode = ScheduleBatch.forward_mode batch,
                 batch_size = ScheduleBatch_batch_size batch,
                 input_ids = ScheduleBatch.input_ids batch,
                 req_pool_indices = ScheduleBatch.req_pool_indices batch,
                 seq_lens = ScheduleBatch.seq_lens batch,
                 out_cache_loc = ScheduleBatch.out_cache_loc batch,
                 positions = None,
                 extend_seq_lens = None,
                 extend_prefix_lens = None,
                 extend_start_loc = None,
                 return_logprob = ScheduleBatch.return_logprob batch,
                 top_logprobs_nums = ScheduleBatch.top_logprobs_nums batch,
                 extend_seq_lens_cpu = None,
                 extend_logprob_start_lens_cpu = None,
                 image_inputs = None,
                 lora_paths = Some (map lora_path (reqs batch)),
                 req_to_token_pool = None,
                 token_to_kv_pool = None,
                 attn_backend = None\<rparr>
      in
        if is_decode (forward_mode ret) then
          Inr (ret\<lparr>positions := Some (tensor_to_int64 (tensor_sub_scalar (seq_lens ret) 1))\<rparr>)
        else
          (case position_ranges lib (prefix_lens_cpu batch) 0 (reqs batch) of
             Inl e \<Rightarrow> Inl e
           | Inr ranges \<Rightarrow>
          (case positions_tensor lib ranges of
             Inl e \<Rightarrow> Inl e
           | Inr pos \<Rightarrow>
          (case torch_tensor (extend_lens_cpu batch) of
             Inl e \<Rightarrow> Inl e
           | Inr esl \<Rightarrow>
          (case torch_tensor (prefix_lens_cpu batch) of
             Inl e \<Rightarrow> Inl e
           | Inr epl \<Rightarrow>
               Inr (ret\<lparr>positions := Some pos,
                        image_inputs := Some (map Req.image_inputs (reqs batch)),
                        extend_seq_lens := Some esl,
                        extend_prefix_lens := Some epl,
                        extend_start_loc :=
                          Some (setitem_from_1 (zeros_like esl) (torch_cumsum (slice_to_last esl))),
                        extend_seq_lens_cpu := extend_lens_cpu batch,
                        extend_logprob_start_lens_cpu :=
                          ScheduleBatch.extend_logprob_start_lens_cpu batch\<rparr>))))))"

section \<open>Auxiliary notions for the statements\<close>

text \<open>The integers a dtype can hold.\<close>

fun dtype_range :: "dtype \<Rightarrow> int \<Rightarrow> bool" where
  "dtype_range Int32 x = (- (2 ^ 31) \<le> x \<and> x < 2 ^ 31)"
| "dtype_range Int64 x = (- (2 ^ 63) \<le> x \<and> x < 2 ^ 63)"

text \<open>\<^verbatim>\<open>len(req.fill_ids)\<close>, the total fill length of a request.\<close>

definition fill_len :: "Req \<Rightarrow> int" where
  "fill_len req = int (length (fill_ids req))"

text \<open>
  The slice \<^verbatim>\<open>positions[extend_start_loc[i] : extend_start_loc[i] + extend_seq_lens[i]]\<close>
  of a record whose three fields are set, for a start and a length that are not
  negative.
\<close>

definition position_slice :: "tensor InputMetadata \<Rightarrow> nat \<Rightarrow> int list" where
  "position_slice ret i =
     (case (positions ret, extend_start_loc ret, extend_seq_lens ret) of
        (Some pos, Some loc, Some seq) \<Rightarrow>
          take (nat (tolist seq ! i)) (drop (nat (tolist loc ! i)) (tolist pos))
      | _ \<Rightarrow> [])"

section \<open>Example batches\<close>

text \<open>
  A library for the examples. No example has a bound outside the modelled range, so
  its choices are never consulted.
\<close>

definition ex_library :: library where
  "ex_library = \<lparr>arange_other = (\<lambda>start stop. Inl ValueError),
                  tensor_other = (\<lambda>arrays. Inl TypeError)\<rparr>"

definition ex_req :: "int list \<Rightarrow> Req" where
  "ex_req ids = \<lparr>fill_ids = ids, lora_path = None, Req.image_inputs = None\<rparr>"

text \<open>
  Three requests in mode EXTEND with cached prefixes 0, 4, 2 and fill lengths 5, 4, 6:
  the second request is fully cached.
\<close>

definition ex_extend_batch :: "tensor ScheduleBatch" where
  "ex_extend_batch =
     \<lparr>ScheduleBatch.forward_mode = EXTEND,
      reqs = [ex_req [11, 12, 13, 14, 15], ex_req [21, 22, 23, 24],
              ex_req [31, 32, 33, 34, 35, 36]],
      ScheduleBatch.input_ids = IntTensor Int32 [11, 12, 13, 14, 15, 33, 34, 35, 36],
      ScheduleBatch.req_pool_indices = IntTensor Int64 [0, 1, 2],
      ScheduleBatch.seq_lens = IntTensor Int64 [5, 4, 6],
      ScheduleBatch.out_cache_loc = IntTensor Int32 [100, 101, 102, 103, 104, 105, 106, 107, 108],
      ScheduleBatch.return_logprob = False,
      ScheduleBatch.top_logprobs_nums = Some [0, 0, 0],
      prefix_lens_cpu = Some [0, 4, 2],
      extend_lens_cpu = Some [5, 0, 4],
      ScheduleBatch.extend_logprob_start_lens_cpu = Some [0, 0, 0]\<rparr>"

text \<open>Two requests in mode DECODE with sequence lengths 10 and 3, asking for logprobs.\<close>

definition ex_decode_batch :: "tensor ScheduleBatch" where
  "ex_decode_batch =
     \<lparr>ScheduleBatch.forward_mode = DECODE,
      reqs = [ex_req [1, 2, 3, 4, 5, 6, 7, 8, 9, 10], ex_req [7, 8, 9]],
      ScheduleBatch.input_ids = IntTensor Int32 [10, 9],
      ScheduleBatch.req_pool_indices = IntTensor Int64 [0, 1],
      ScheduleBatch.seq_lens = IntTensor Int32 [10, 3],
      ScheduleBatch.out_cache_loc = IntTensor Int32 [40, 41],
      ScheduleBatch.return_logprob = True,
      ScheduleBatch.top_logprobs_nums = Some [2, 0],
      prefix_lens_cpu = None,
      extend_lens_cpu = None,
      ScheduleBatch.extend_logprob_start_lens_cpu = None\<rparr>"

text \<open>The record that the EXTEND example assembles to.\<close>

definition ex_extend_metadata :: "tensor InputMetadata" where
  "ex_extend_metadata =
     \<lparr>InputMetadata.forward_mode = EXTEND,
      batch_size = 3,
      input_ids = IntTensor Int32 [11, 12, 13, 14, 15, 33, 34, 35, 36],
      req_pool_indices = IntTensor Int64 [0, 1, 2],
      seq_lens = IntTensor Int64 [5, 4, 6],
      out_cache_loc = IntTensor Int32 [100, 101, 102, 103, 104, 105, 106, 107, 108],
      positions = Some (IntTensor Int64 [0, 1, 2, 3, 4, 2, 3, 4, 5]),
      extend_seq_lens = Some (IntTensor Int64 [5, 0, 4]),
      extend_prefix_lens = Some (IntTensor Int64 [0, 4, 2]),
      extend_start_loc = Some (IntTensor Int64 [0, 5, 5]),
      return_logprob = False,
      top_logprobs_nums = Some [0, 0, 0],
      extend_seq_lens_cpu = Some [5, 0, 4],
      extend_logprob_start_lens_cpu = Some [0, 0, 0],
      image_inputs = Some [None, None, None],
      lora_paths = Some [None, None, None],
      req_to_token_pool = None,
      token_to_kv_pool = None,
      attn_backend = None\<rparr>"

text \<open>
  The EXTEND example with extend lengths that do not match its prefix and fill lengths,
  and the record it assembles to.
\<close>

definition ex_stale_batch :: "tensor ScheduleBatch" where
  "ex_stale_batch = ex_extend_batch\<lparr>extend_lens_cpu := Some [3, 0, 4]\<rparr>"

definition ex_stale_metadata :: "tensor InputMetadata" where
  "ex_stale_metadata =
     ex_extend_metadata\<lparr>extend_seq_lens := Some (IntTensor Int64 [3, 0, 4]),
       extend_start_loc := Some (IntTensor Int64 [0, 3, 3]),
       extend_seq_lens_cpu := Some [3, 0, 4]\<rparr>"

text \<open>The record that the DECODE example assembles to.\<close>

definition ex_decode_metadata :: "tensor InputMetadata" where
  "ex_decode_metadata =
     \<lparr>InputMetadata.forward_mode = DECODE,
      batch_size = 2,
      input_ids = IntTensor Int32 [10, 9],
      req_pool_indices = IntTensor Int64 [0, 1],
      seq_lens = IntTensor Int32 [10, 3],
      out_cache_loc = IntTensor Int32 [40, 41],
      positions = Some (IntTensor Int64 [9, 2]),
      extend_seq_lens = None,
      extend_prefix_lens = None,
      extend_start_loc = None,
      return_logprob = True,
      top_logprobs_nums = Some [2, 0],
      extend_seq_lens_cpu = None,
      extend_logprob_start_lens_cpu = None,
      image_inputs = None,
      lora_paths = Some [None, None],
      req_to_token_pool = None,
      token_to_kv_pool = None,
      attn_backend = None\<rparr>"

text \<open>The EXTEND example marked PREFILL.\<close>

definition ex_prefill_batch :: "tensor ScheduleBatch" where
  "ex_prefill_batch = ex_extend_batch\<lparr>ScheduleBatch.forward_mode := PREFILL\<rparr>"

text \<open>
  The EXTEND example marked DECODE: a DECODE descriptor that supplies the extend-only
  host lists, and the record it assembles to.
\<close>

definition ex_decode_with_extend_fields :: "tensor ScheduleBatch" where
  "ex_decode_with_extend_fields = ex_extend_batch\<lparr>ScheduleBatch.forward_mode := DECODE\<rparr>"

definition ex_decode_with_extend_fields_metadata :: "tensor InputMetadata" where
  "ex_decode_with_extend_fields_metadata =
     \<lparr>InputMetadata.forward_mode = DECODE,
      batch_size = 3,
      input_ids = IntTensor Int32 [11, 12, 13, 14, 15, 33, 34, 35, 36],
      req_pool_indices = IntTensor Int64 [0, 1, 2],
      seq_lens = IntTensor Int64 [5, 4, 6],
      out_cache_loc = IntTensor Int32 [100, 101, 102, 103, 104, 105, 106, 107, 108],
      positions = Some (IntTensor Int64 [4, 3, 5]),
      extend_seq_lens = None,
      extend_prefix_lens = None,
      extend_start_loc = None,
      return_logprob = False,
      top_logprobs_nums = Some [0, 0, 0],
      extend_seq_lens_cpu = None,
      extend_logprob_start_lens_cpu = None,
      image_inputs = None,
      lora_paths = Some [None, None, None],
      req_to_token_pool = None,
      token_to_kv_pool = None,
      attn_backend = None\<rparr>"

text \<open>
  The DECODE example with three sequence lengths for its two requests, and the record
  it assembles to; the EXTEND example with four prefix and extend lengths for its
  three requests, and the record it assembles to.
\<close>

definition ex_mismatched_decode :: "tensor ScheduleBatch" where
  "ex_mismatched_decode =
     ex_decode_batch\<lparr>ScheduleBatch.seq_lens := IntTensor Int32 [10, 3, 7]\<rparr>"

definition ex_mismatched_decode_metadata :: "tensor InputMetadata" where
  "ex_mismatched_decode_metadata =
     ex_decode_metadata\<lparr>InputMetadata.seq_lens := IntTensor Int32 [10, 3, 7],
       positions := Some (IntTensor Int64 [9, 2, 6])\<rparr>"

definition ex_mismatched_extend :: "tensor ScheduleBatch" where
  "ex_mismatched_extend =
     ex_extend_batch\<lparr>prefix_lens_cpu := Some [0, 4, 2, 9], extend_lens_cpu := Some [5, 0, 4, 7]\<rparr>"

definition ex_mismatched_extend_metadata :: "tensor InputMetadata" where
  "ex_mismatched_extend_metadata =
     ex_extend_metadata\<lparr>extend_seq_lens := Some (IntTensor Int64 [5, 0, 4, 7]),
       extend_prefix_lens := Some (IntTensor Int64 [0, 4, 2, 9]),
       extend_start_loc := Some (IntTensor Int64 [0, 5, 5, 9]),
       extend_seq_lens_cpu := Some [5, 0, 4, 7]\<rparr>"

text \<open>The EXTEND example without its prefix lengths, and without its extend lengths.\<close>

definition ex_extend_without_prefix_lens :: "tensor ScheduleBatch" where
  "ex_extend_without_prefix_lens = ex_extend_batch\<lparr>prefix_lens_cpu := None\<rparr>"

definition ex_extend_without_extend_lens :: "tensor ScheduleBatch" where
  "ex_extend_without_extend_lens = ex_extend_batch\<lparr>extend_lens_cpu := None\<rparr>"

text \<open>The EXTEND example with no requests, and with two prefix lengths for its three requests.\<close>

definition ex_empty_extend :: "tensor ScheduleBatch" where
  "ex_empty_extend = ex_extend_batch\<lparr>reqs := []\<rparr>"

definition ex_short_prefix_lens :: "tensor ScheduleBatch" where
  "ex_short_prefix_lens = ex_extend_batch\<lparr>prefix_lens_cpu := Some [0, 4]\<rparr>"

section \<open>Assembly over a store of tensors\<close>

text \<open>
  Tensors are objects: the record's \<^verbatim>\<open>input_ids\<close>, \<^verbatim>\<open>req_pool_indices\<close>, \<^verbatim>\<open>seq_lens\<close> and
  \<^verbatim>\<open>out_cache_loc\<close> are the batch's own tensors, not copies, and line 132 writes into a
  tensor in place. A store holds the tensors, an address is an index into it, and a
  new tensor is put at the end.
\<close>

type_synonym addr = nat

type_synonym store = "tensor list"

definition alloc :: "store \<Rightarrow> tensor \<Rightarrow> addr \<times> store" where
  "alloc s t = (length s, s @ [t])"

text \<open>
  \<^verbatim>\<open>InputMetadata.from_schedule_batch\<close> on a batch that holds the addresses of its
  tensors. Every expression that builds a tensor allocates it; \<^verbatim>\<open>zeros_like\<close> allocates
  \<^verbatim>\<open>extend_start_loc\<close> and the slice assignment of line 132 then updates that cell. The
  host lists are only read and copied by reference, so they stay values. An exception
  leaves the caller with the store it had.
\<close>

definition from_schedule_batch_in_store ::
    "library \<Rightarrow> addr ScheduleBatch \<Rightarrow> store \<Rightarrow>
       py_error + (addr InputMetadata \<times> store)" where
  "from_schedule_batch_in_store lib batch s =
     (let ret = \<lparr>InputMetadata.forward_mode = ScheduleBatch.forward_mode batch,
                 batch_size = ScheduleBatch_batch_size batch,
                 input_ids = ScheduleBatch.input_ids batch,
                 req_pool_indices = ScheduleBatch.req_pool_indices batch,
                 seq_lens = ScheduleBatch.seq_lens batch,
                 out_cache_loc = ScheduleBatch.out_cache_loc batch,
                 positions = None,
                 extend_seq_lens = None,
                 extend_prefix_lens = None,
                 extend_start_loc = None,
                 return_logprob = ScheduleBatch.return_logprob batch,
                 top_logprobs_nums = ScheduleBatch.top_logprobs_nums batch,
                 extend_seq_lens_cpu = None,
                 extend_logprob_start_lens_cpu = None,
                 image_inputs = None,
                 lora_paths = Some (map lora_path (reqs batch)),
                 req_to_token_pool = None,
                 token_to_kv_pool = None,
                 attn_backend = None\<rparr>
      in
        if is_decode (InputMetadata.forward_mode ret) then
          (let (pos, s1) =
                 alloc s (tensor_to_int64 (tensor_sub_scalar (s ! InputMetadata.seq_lens ret) 1))
           in Inr (ret\<lparr>positions := Some pos\<rparr>, s1))
        else
          (case position_ranges lib (prefix_lens_cpu batch) 0 (reqs batch) of
             Inl e \<Rightarrow> Inl e
           | Inr ranges \<Rightarrow>
          (case positions_tensor lib ranges of
             Inl e \<Rightarrow> Inl e
           | Inr t \<Rightarrow>
          (let (pos, s1) = alloc s t in
          (case torch_tensor (extend_lens_cpu batch) of
             Inl e \<Rightarrow> Inl e
           | Inr esl \<Rightarrow>
          (let (seq, s2) = alloc s1 esl in
          (case torch_tensor (prefix_lens_cpu batch) of
             Inl e \<Rightarrow> Inl e
           | Inr epl \<Rightarrow>
          (let (pre, s3) = alloc s2 epl;
               (loc, s4) = alloc s3 (zeros_like (s3 ! seq));
               s5 = s4[loc := setitem_from_1 (s4 ! loc) (torch_cumsum (slice_to_last (s4 ! seq)))]
           in Inr (ret\<lparr>positions := Some pos,
                        image_inputs := Some (map Req.image_inputs (reqs batch)),
                        extend_seq_lens := Some seq,
                        extend_prefix_lens := Some pre,
                        extend_start_loc := Some loc,
                        extend_seq_lens_cpu := extend_lens_cpu batch,
                        InputMetadata.extend_logprob_start_lens_cpu :=
                          ScheduleBatch.extend_logprob_start_lens_cpu batch\<rparr>, s5)))))))))"

text \<open>What a batch and a record hold, read through the store.\<close>

definition load_batch :: "store \<Rightarrow> addr ScheduleBatch \<Rightarrow> tensor ScheduleBatch" where
  "load_batch s batch =
     \<lparr>ScheduleBatch.forward_mode = ScheduleBatch.forward_mode batch,
      reqs = reqs batch,
      ScheduleBatch.input_ids = s ! ScheduleBatch.input_ids batch,
      ScheduleBatch.req_pool_indices = s ! ScheduleBatch.req_pool_indices batch,
      ScheduleBatch.seq_lens = s ! ScheduleBatch.seq_lens batch,
      ScheduleBatch.out_cache_loc = s ! ScheduleBatch.out_cache_loc batch,
      ScheduleBatch.return_logprob = ScheduleBatch.return_logprob batch,
      ScheduleBatch.top_logprobs_nums = ScheduleBatch.top_logprobs_nums batch,
      prefix_lens_cpu = prefix_lens_cpu batch,
      extend_lens_cpu = extend_lens_cpu batch,
      ScheduleBatch.extend_logprob_start_lens_cpu =
        ScheduleBatch.extend_logprob_start_lens_cpu batch\<rparr>"

definition load_metadata :: "store \<Rightarrow> addr InputMetadata \<Rightarrow> tensor InputMetadata" where
  "load_metadata s ret =
     \<lparr>InputMetadata.forward_mode = InputMetadata.forward_mode ret,
      batch_size = batch_size ret,
      input_ids = s ! InputMetadata.input_ids ret,
      req_pool_indices = s ! InputMetadata.req_pool_indices ret,
      seq_lens = s ! InputMetadata.seq_lens ret,
      out_cache_loc = s ! InputMetadata.out_cache_loc ret,
      positions = map_option (nth s) (positions ret),
      extend_seq_lens = map_option (nth s) (extend_seq_lens ret),
      extend_prefix_lens = map_option (nth s) (extend_prefix_lens ret),
      extend_start_loc = map_option (nth s) (extend_start_loc ret),
      return_logprob = InputMetadata.return_logprob ret,
      top_logprobs_nums = InputMetadata.top_logprobs_nums ret,
      extend_seq_lens_cpu = extend_seq_lens_cpu ret,
      extend_logprob_start_lens_cpu = InputMetadata.extend_logprob_start_lens_cpu ret,
      image_inputs = image_inputs ret,
      lora_paths = lora_paths ret,
      req_to_token_pool = req_to_token_pool ret,
      token_to_kv_pool = token_to_kv_pool ret,
      attn_backend = attn_backend ret\<rparr>"

text \<open>The tensors of a batch exist: there is no dangling reference in Python.\<close>

definition batch_in_store :: "store \<Rightarrow> addr ScheduleBatch \<Rightarrow> bool" where
  "batch_in_store s batch =
     (ScheduleBatch.input_ids batch < length s
      \<and> ScheduleBatch.req_pool_indices batch < length s
      \<and> ScheduleBatch.seq_lens batch < length s
      \<and> ScheduleBatch.out_cache_loc batch < length s)"

definition addr_in_store :: "store \<Rightarrow> addr option \<Rightarrow> bool" where
  "addr_in_store s f = (case f of None \<Rightarrow> True | Some a \<Rightarrow> a < length s)"

definition metadata_in_store :: "store \<Rightarrow> addr InputMetadata \<Rightarrow> bool" where
  "metadata_in_store s ret =
     (InputMetadata.input_ids ret < length s
      \<and> InputMetadata.req_pool_indices ret < length s
      \<and> InputMetadata.seq_lens ret < length s
      \<and> InputMetadata.out_cache_loc ret < length s
      \<and> addr_in_store s (positions ret)
      \<and> addr_in_store s (extend_seq_lens ret)
      \<and> addr_in_store s (extend_prefix_lens ret)
      \<and> addr_in_store s (extend_start_loc ret))"

text \<open>
  The EXTEND example with its four tensors in a store, the record of addresses it
  assembles to, and the store after the call.
\<close>

definition ex_store :: store where
  "ex_store =
     [IntTensor Int32 [11, 12, 13, 14, 15, 33, 34, 35, 36],
      IntTensor Int64 [0, 1, 2],
      IntTensor Int64 [5, 4, 6],
      IntTensor Int32 [100, 101, 102, 103, 104, 105, 106, 107, 108]]"

definition ex_stored_batch :: "addr ScheduleBatch" where
  "ex_stored_batch =
     \<lparr>ScheduleBatch.forward_mode = EXTEND,
      reqs = [ex_req [11, 12, 13, 14, 15], ex_req [21, 22, 23, 24],
              ex_req [31, 32, 33, 34, 35, 36]],
      ScheduleBatch.input_ids = 0,
      ScheduleBatch.req_pool_indices = 1,
      ScheduleBatch.seq_lens = 2,
      ScheduleBatch.out_cache_loc = 3,
      ScheduleBatch.return_logprob = False,
      ScheduleBatch.top_logprobs_nums = Some [0, 0, 0],
      prefix_lens_cpu = Some [0, 4, 2],
      extend_lens_cpu = Some [5, 0, 4],
      ScheduleBatch.extend_logprob_start_lens_cpu = Some [0, 0, 0]\<rparr>"

definition ex_stored_metadata :: "addr InputMetadata" where
  "ex_stored_metadata =
     \<lparr>InputMetadata.forward_mode = EXTEND,
      batch_size = 3,
      input_ids = 0,
      req_pool_indices = 1,
      seq_lens = 2,
      out_cache_loc = 3,
      positions = Some 4,
      extend_seq_lens = Some 5,
      extend_prefix_lens = Some 6,
      extend_start_loc = Some 7,
      return_logprob = False,
      top_logprobs_nums = Some [0, 0, 0],
      extend_seq_lens_cpu = Some [5, 0, 4],
      extend_logprob_start_lens_cpu = Some [0, 0, 0],
      image_inputs = Some [None, None, None],
      lora_paths = Some [None, None, None],
      req_to_token_pool = None,
      token_to_kv_pool = None,
      attn_backend = None\<rparr>"

definition ex_store_after :: store where
  "ex_store_after =
     ex_store @
     [IntTensor Int64 [0, 1, 2, 3, 4, 2, 3, 4, 5],
      IntTensor Int64 [5, 0, 4],
      IntTensor Int64 [0, 4, 2],
      IntTensor Int64 [0, 5, 5]]"

section \<open>Properties of the forward mode\<close>

lemma ForwardMode_value_inj: "ForwardMode_value a = ForwardMode_value b \<longleftrightarrow> a = b"
  by (cases a; cases b) simp_all

text \<open>
  C7. Of the four modes, \<open>is_extend\<close> holds exactly of EXTEND and MIXED, \<open>is_decode\<close>
  exactly of DECODE, \<open>is_prefill\<close> exactly of PREFILL and \<open>is_mixed\<close> exactly of MIXED.
  The predicates are total functions to \<open>bool\<close>. Building a mode from a member's value
  gives that member, and building one from an integer outside 1, 2, 3, 4 fails.
\<close>

theorem ForwardMode_predicates:
  "(is_extend m \<longleftrightarrow> m = EXTEND \<or> m = MIXED)
   \<and> (is_decode m \<longleftrightarrow> m = DECODE)
   \<and> (is_prefill m \<longleftrightarrow> m = PREFILL)
   \<and> (is_mixed m \<longleftrightarrow> m = MIXED)
   \<and> ForwardMode_of_value (ForwardMode_value m) = Inr m
   \<and> (v \<notin> {1, 2, 3, 4} \<longrightarrow> ForwardMode_of_value v = Inl ValueError)"
  by (cases m)
    (simp_all add: is_extend_def is_decode_def is_prefill_def is_mixed_def
      ForwardMode_of_value_def)

theorem ForwardMode_predicates_witness:
  "(7::int) \<notin> {1, 2, 3, 4} \<and> ForwardMode_of_value 7 = Inl ValueError
   \<and> is_extend MIXED \<and> \<not> is_decode MIXED \<and> \<not> is_prefill MIXED \<and> is_mixed MIXED
   \<and> ForwardMode_of_value 4 = Inr MIXED"
  using ForwardMode_predicates [of MIXED 7] by simp

section \<open>Decode batches\<close>

lemma wrap_dtype_id: "dtype_range d x \<Longrightarrow> wrap_dtype d x = x"
  by (cases d) (simp_all add: signed_take_bit_int_eq_self)

lemma decode_result:
  assumes "ScheduleBatch.forward_mode batch = DECODE"
  shows "from_schedule_batch lib batch =
     Inr \<lparr>InputMetadata.forward_mode = DECODE,
          batch_size = length (reqs batch),
          input_ids = ScheduleBatch.input_ids batch,
          req_pool_indices = ScheduleBatch.req_pool_indices batch,
          seq_lens = ScheduleBatch.seq_lens batch,
          out_cache_loc = ScheduleBatch.out_cache_loc batch,
          positions = Some (tensor_to_int64 (tensor_sub_scalar (ScheduleBatch.seq_lens batch) 1)),
          extend_seq_lens = None,
          extend_prefix_lens = None,
          extend_start_loc = None,
          return_logprob = ScheduleBatch.return_logprob batch,
          top_logprobs_nums = ScheduleBatch.top_logprobs_nums batch,
          extend_seq_lens_cpu = None,
          extend_logprob_start_lens_cpu = None,
          image_inputs = None,
          lora_paths = Some (map lora_path (reqs batch)),
          req_to_token_pool = None,
          token_to_kv_pool = None,
          attn_backend = None\<rparr>"
  using assms by (simp add: from_schedule_batch_def is_decode_def ScheduleBatch_batch_size_def)

lemma tolist_to_int64: "tolist (tensor_to_int64 t) = tolist t"
  by (cases t) simp_all

lemma numel_sub_scalar: "numel (tensor_sub_scalar t k) = numel t"
  by (cases t) (simp_all add: numel_def)

text \<open>
  C3. A DECODE batch always assembles. Its \<open>positions\<close> has one entry per entry of
  \<open>seq_lens\<close> (so one per request when the batch holds one sequence length per
  request), entry \<open>i\<close> is \<open>seq_lens[i] - 1\<close> computed in the dtype of \<open>seq_lens\<close>, which is
  the integer \<open>seq_lens[i] - 1\<close> whenever the dtype can hold it (as for every
  \<open>seq_lens[i] \<ge> 1\<close> it holds), and the three extend-only fields stay unset.
\<close>

theorem decode_positions:
  assumes "ScheduleBatch.forward_mode batch = DECODE"
  shows "\<exists>ret pos. from_schedule_batch lib batch = Inr ret
      \<and> positions ret = Some pos
      \<and> batch_size ret = length (reqs batch)
      \<and> numel pos = numel (ScheduleBatch.seq_lens batch)
      \<and> (\<forall>d xs i. ScheduleBatch.seq_lens batch = IntTensor d xs \<and> i < length xs \<longrightarrow>
            tolist pos ! i = wrap_dtype d (xs ! i - 1)
            \<and> (dtype_range d (xs ! i - 1) \<longrightarrow> tolist pos ! i = xs ! i - 1))
      \<and> extend_seq_lens ret = None \<and> extend_prefix_lens ret = None
      \<and> extend_start_loc ret = None"
proof -
  let ?pos = "tensor_to_int64 (tensor_sub_scalar (ScheduleBatch.seq_lens batch) 1)"
  have n: "numel ?pos = numel (ScheduleBatch.seq_lens batch)"
    using numel_sub_scalar [of "ScheduleBatch.seq_lens batch" 1]
    by (simp add: numel_def tolist_to_int64)
  have e: "tolist ?pos ! i = wrap_dtype d (xs ! i - 1)"
    if "ScheduleBatch.seq_lens batch = IntTensor d xs" "i < length xs" for d xs i
    using that by simp
  show ?thesis
    using n e by (simp add: decode_result [OF assms] wrap_dtype_id)
qed

theorem decode_positions_witness:
  "ScheduleBatch.forward_mode ex_decode_batch = DECODE
   \<and> (\<exists>ret. from_schedule_batch ex_library ex_decode_batch = Inr ret
        \<and> positions ret = Some (IntTensor Int64 [9, 2])
        \<and> batch_size ret = 2
        \<and> extend_seq_lens ret = None \<and> extend_prefix_lens ret = None
        \<and> extend_start_loc ret = None)"
  using decode_positions [where batch = ex_decode_batch and lib = ex_library]
  by (simp add: from_schedule_batch_def ex_decode_batch_def ex_req_def is_decode_def
      ScheduleBatch_batch_size_def)

section \<open>Extend-bearing batches\<close>

lemma wrap64_add_left: "wrap_dtype Int64 (wrap_dtype Int64 a + b) = wrap_dtype Int64 (a + b)"
proof -
  have "signed_take_bit 63 (signed_take_bit 63 a + b)
      = signed_take_bit 63 (signed_take_bit 63 (signed_take_bit 63 a) + signed_take_bit 63 b)"
    by (simp only: signed_take_bit_add)
  also have "\<dots> = signed_take_bit (63::nat) (a + b)"
    by (simp add: signed_take_bit_add)
  finally show ?thesis by simp
qed

lemma wrap64_id: "int64_range x \<Longrightarrow> wrap_dtype Int64 x = x"
  by (simp add: int64_range_def signed_take_bit_int_eq_self)

lemma length_cumsum_from: "length (cumsum_from acc xs) = length xs"
  by (induction xs arbitrary: acc) (simp_all add: Let_def)

lemma cumsum_from_nth:
  "i < length xs \<Longrightarrow> cumsum_from acc xs ! i = wrap_dtype Int64 (acc + sum_list (take (Suc i) xs))"
proof (induction xs arbitrary: acc i)
  case Nil
  then show ?case by simp
next
  case (Cons x xs)
  show ?case
  proof (cases i)
    case 0
    then show ?thesis by (simp add: Let_def)
  next
    case (Suc j)
    with Cons.prems have "j < length xs" by simp
    from Cons.IH [OF this, of "wrap_dtype Int64 (acc + x)"] Suc
    show ?thesis
      using wrap64_add_left [of "acc + x" "sum_list (take (Suc j) xs)"]
      by (simp add: Let_def add.assoc)
  qed
qed

text \<open>The tensor that lines 129, 131 and 132 build from the host list of extend lengths.\<close>

lemma torch_tensor_Inr:
  "torch_tensor v = Inr t \<Longrightarrow>
     \<exists>xs. v = Some xs \<and> list_all int64_range xs \<and> tolist t = xs
       \<and> t = (if xs = [] then EmptyFloat32 else IntTensor Int64 xs)"
  by (auto simp add: torch_tensor_def split: option.splits if_splits)

lemma start_loc_length:
  assumes "t = (if el = [] then EmptyFloat32 else IntTensor Int64 el)"
  shows "length (tolist (setitem_from_1 (zeros_like t) (torch_cumsum (slice_to_last t)))) = length el"
proof (cases "el = []")
  case True
  with assms show ?thesis by simp
next
  case False
  then have "take (Suc 0) (replicate (length el) (0::int)) = [0]"
    by (cases el) simp_all
  with False assms show ?thesis
    by (simp add: length_cumsum_from)
qed

lemma start_loc_nth:
  assumes t: "t = (if el = [] then EmptyFloat32 else IntTensor Int64 el)"
    and i: "i < length el"
  shows "tolist (setitem_from_1 (zeros_like t) (torch_cumsum (slice_to_last t))) ! i
     = wrap_dtype Int64 (sum_list (take i el))"
proof -
  from i have ne: "el \<noteq> []" by auto
  then have z: "take (Suc 0) (replicate (length el) (0::int)) = [0]"
    by (cases el) simp_all
  have l: "tolist (setitem_from_1 (zeros_like t) (torch_cumsum (slice_to_last t)))
      = 0 # map (wrap_dtype Int64) (cumsum_from 0 (butlast el))"
    using t ne z by simp
  show ?thesis
  proof (cases i)
    case 0
    with l show ?thesis by simp
  next
    case (Suc j)
    with i have j: "j < length (butlast el)" by simp
    have tk: "take (Suc j) (butlast el) = take (Suc j) el"
      using i Suc by (simp add: take_butlast)
    have "wrap_dtype Int64 (wrap_dtype Int64 (0 + sum_list (take (Suc j) el)) + 0)
        = wrap_dtype Int64 (0 + sum_list (take (Suc j) el) + 0)"
      by (rule wrap64_add_left)
    then show ?thesis
      using l Suc j cumsum_from_nth [OF j, of 0] tk
      by (simp add: length_cumsum_from)
  qed
qed

lemma int64_arrays_map: "int64_arrays (map Int64Array xss) = Some xss"
  by (induction xss) simp_all

lemma position_ranges_None:
  "position_ranges lib None i rs = Inr ranges \<Longrightarrow> rs = [] \<and> ranges = []"
  by (cases rs) simp_all

lemma position_ranges_length:
  "position_ranges lib pl i rs = Inr arrays \<Longrightarrow>
     length arrays = length rs
     \<and> (rs \<noteq> [] \<longrightarrow> (\<exists>xs. pl = Some xs \<and> i + length rs \<le> length xs))"
proof (induction rs arbitrary: i arrays)
  case Nil
  then show ?case by simp
next
  case (Cons r rs)
  from Cons.prems obtain xs where xs: "pl = Some xs"
    by (cases pl) simp_all
  from Cons.prems xs have i: "i < length xs"
    by (simp split: if_splits)
  from Cons.prems xs i obtain a rest where
    rest: "position_ranges lib pl (Suc i) rs = Inr rest"
    and arrays: "arrays = a # rest"
    by (auto split: sum.splits)
  from Cons.IH [OF rest] xs i arrays show ?case
    by (cases rs) auto
qed

lemma position_ranges_Inr:
  "position_ranges lib (Some pl) i rs = Inr arrays \<Longrightarrow>
   (\<forall>j. i \<le> j \<and> j < i + length rs \<longrightarrow> nonneg_int64 (pl ! j)) \<Longrightarrow>
     arrays = map Int64Array (map2 (\<lambda>p r. [p..fill_len r - 1]) (drop i pl) rs)"
proof (induction rs arbitrary: i arrays)
  case Nil
  then show ?case by simp
next
  case (Cons r rs)
  from Cons.prems(1) have i: "i < length pl"
    by (simp split: if_splits)
  from Cons.prems(2) have p: "nonneg_int64 (pl ! i)"
    by simp
  from Cons.prems(1) i p obtain rest where
    rest: "position_ranges lib (Some pl) (Suc i) rs = Inr rest"
    and arrays: "arrays = Int64Array [pl ! i..fill_len r - 1] # rest"
    by (auto simp add: np_arange_def fill_len_def split: sum.splits)
  have "\<forall>j. Suc i \<le> j \<and> j < Suc i + length rs \<longrightarrow> nonneg_int64 (pl ! j)"
    using Cons.prems(2) by simp
  note IH = Cons.IH [OF rest this]
  have d: "drop i pl = pl ! i # drop (Suc i) pl"
    using i by (simp add: Cons_nth_drop_Suc)
  show ?case
    using IH arrays by (simp add: d)
qed

lemma positions_of_nonneg:
  assumes r: "position_ranges lib (Some pl) 0 rqs = Inr arrays"
    and t: "positions_tensor lib arrays = Inr pos"
    and nn: "\<forall>j < length rqs. nonneg_int64 (pl ! j)"
  shows "pos = IntTensor Int64 (concat (map2 (\<lambda>p r. [p..fill_len r - 1]) pl rqs))"
proof -
  let ?rs = "map2 (\<lambda>p r. [p..fill_len r - 1]) pl rqs"
  have a: "arrays = map Int64Array ?rs"
    using position_ranges_Inr [OF r] nn by simp
  have "int64_arrays arrays = Some ?rs"
    unfolding a by (rule int64_arrays_map)
  with t show ?thesis
    by (auto simp add: positions_tensor_def np_concatenate_def split: if_splits)
qed

lemma is_decode_iff: "is_decode m \<longleftrightarrow> m = DECODE"
  by (cases m) (simp_all add: is_decode_def)

lemma extend_result:
  assumes mode: "ScheduleBatch.forward_mode batch \<noteq> DECODE"
    and ok: "from_schedule_batch lib batch = Inr ret"
  shows "\<exists>pl el esl.
      prefix_lens_cpu batch = Some pl \<and> extend_lens_cpu batch = Some el
      \<and> reqs batch \<noteq> [] \<and> length (reqs batch) \<le> length pl
      \<and> list_all int64_range pl \<and> list_all int64_range el
      \<and> esl = (if el = [] then EmptyFloat32 else IntTensor Int64 el)
      \<and> InputMetadata.forward_mode ret = ScheduleBatch.forward_mode batch
      \<and> batch_size ret = length (reqs batch)
      \<and> InputMetadata.input_ids ret = ScheduleBatch.input_ids batch
      \<and> InputMetadata.req_pool_indices ret = ScheduleBatch.req_pool_indices batch
      \<and> InputMetadata.seq_lens ret = ScheduleBatch.seq_lens batch
      \<and> InputMetadata.out_cache_loc ret = ScheduleBatch.out_cache_loc batch
      \<and> (\<exists>arrays pos. position_ranges lib (Some pl) 0 (reqs batch) = Inr arrays
            \<and> positions_tensor lib arrays = Inr pos \<and> positions ret = Some pos)
      \<and> extend_seq_lens ret = Some esl
      \<and> extend_prefix_lens ret = Some (IntTensor Int64 pl)
      \<and> extend_start_loc ret
          = Some (setitem_from_1 (zeros_like esl) (torch_cumsum (slice_to_last esl)))
      \<and> InputMetadata.return_logprob ret = ScheduleBatch.return_logprob batch
      \<and> InputMetadata.top_logprobs_nums ret = ScheduleBatch.top_logprobs_nums batch
      \<and> extend_seq_lens_cpu ret = Some el
      \<and> InputMetadata.extend_logprob_start_lens_cpu ret
          = ScheduleBatch.extend_logprob_start_lens_cpu batch
      \<and> image_inputs ret = Some (map Req.image_inputs (reqs batch))
      \<and> lora_paths ret = Some (map lora_path (reqs batch))
      \<and> req_to_token_pool ret = None \<and> token_to_kv_pool ret = None
      \<and> attn_backend ret = None"
proof -
  from mode have nd: "\<not> is_decode (ScheduleBatch.forward_mode batch)"
    by (simp add: is_decode_iff)
  from ok nd obtain ranges where
    r: "position_ranges lib (prefix_lens_cpu batch) 0 (reqs batch) = Inr ranges"
    by (auto simp add: from_schedule_batch_def split: sum.splits)
  from ok nd r obtain pos where t: "positions_tensor lib ranges = Inr pos"
    by (auto simp add: from_schedule_batch_def split: sum.splits)
  from t have ne: "ranges \<noteq> []"
    by (auto simp add: positions_tensor_def np_concatenate_def)
  from ok nd r t obtain esl where e: "torch_tensor (extend_lens_cpu batch) = Inr esl"
    by (auto simp add: from_schedule_batch_def split: sum.splits)
  from ok nd r t e obtain epl where p: "torch_tensor (prefix_lens_cpu batch) = Inr epl"
    by (auto simp add: from_schedule_batch_def split: sum.splits)
  from torch_tensor_Inr [OF p] obtain pl where
    pl: "prefix_lens_cpu batch = Some pl" "list_all int64_range pl"
      "epl = (if pl = [] then EmptyFloat32 else IntTensor Int64 pl)"
    by blast
  from torch_tensor_Inr [OF e] obtain el where
    el: "extend_lens_cpu batch = Some el" "list_all int64_range el"
      "esl = (if el = [] then EmptyFloat32 else IntTensor Int64 el)"
    by blast
  from position_ranges_length [OF r] ne pl(1) have
    rne: "reqs batch \<noteq> []" and len: "length (reqs batch) \<le> length pl"
    by auto
  then have plne: "pl \<noteq> []" by auto
  have ret: "ret = \<lparr>InputMetadata.forward_mode = ScheduleBatch.forward_mode batch,
          batch_size = length (reqs batch),
          input_ids = ScheduleBatch.input_ids batch,
          req_pool_indices = ScheduleBatch.req_pool_indices batch,
          seq_lens = ScheduleBatch.seq_lens batch,
          out_cache_loc = ScheduleBatch.out_cache_loc batch,
          positions = Some pos,
          extend_seq_lens = Some esl,
          extend_prefix_lens = Some (IntTensor Int64 pl),
          extend_start_loc = Some (setitem_from_1 (zeros_like esl) (torch_cumsum (slice_to_last esl))),
          return_logprob = ScheduleBatch.return_logprob batch,
          top_logprobs_nums = ScheduleBatch.top_logprobs_nums batch,
          extend_seq_lens_cpu = Some el,
          extend_logprob_start_lens_cpu = ScheduleBatch.extend_logprob_start_lens_cpu batch,
          image_inputs = Some (map Req.image_inputs (reqs batch)),
          lora_paths = Some (map lora_path (reqs batch)),
          req_to_token_pool = None,
          token_to_kv_pool = None,
          attn_backend = None\<rparr>"
    using ok nd r t e p pl(1,3) el(1) plne
    by (simp add: from_schedule_batch_def ScheduleBatch_batch_size_def)
  have inner: "\<exists>arrays pos'. position_ranges lib (Some pl) 0 (reqs batch) = Inr arrays
      \<and> positions_tensor lib arrays = Inr pos' \<and> positions ret = Some pos'"
    using r t pl(1) by (simp add: ret)
  show ?thesis
    apply (rule exI [of _ pl], rule exI [of _ el], rule exI [of _ esl])
    using inner pl(1,2) el rne len by (simp add: ret)
qed

lemma extend_bearing_not_decode:
  "m \<in> {EXTEND, MIXED, PREFILL} \<Longrightarrow> m \<noteq> DECODE"
  by auto

text \<open>
  C2. In the record of an extend-bearing batch, \<open>extend_seq_lens\<close> holds the batch's
  extend lengths and \<open>extend_start_loc\<close> is their exclusive prefix sum in int64
  arithmetic: it has as many entries, entry 0 is 0, and entry \<open>i\<close> is entry \<open>i - 1\<close> plus
  \<open>extend_seq_lens[i - 1]\<close>, the sum of the first \<open>i\<close> extend lengths. The additions are
  those of an int64 tensor; where a sum fits 64 bits it is the integer sum. Nothing
  depends on an extend length being zero.
\<close>

theorem extend_start_loc_prefix_sum:
  assumes ok: "from_schedule_batch lib batch = Inr ret"
    and mode: "ScheduleBatch.forward_mode batch \<in> {EXTEND, MIXED, PREFILL}"
  shows "\<exists>seq loc. extend_seq_lens ret = Some seq \<and> extend_start_loc ret = Some loc
      \<and> extend_lens_cpu batch = Some (tolist seq)
      \<and> numel loc = numel seq
      \<and> (0 < numel loc \<longrightarrow> tolist loc ! 0 = 0)
      \<and> (\<forall>i. 0 < i \<and> i < numel loc \<longrightarrow>
            tolist loc ! i = wrap_dtype Int64 (tolist loc ! (i - 1) + tolist seq ! (i - 1))
            \<and> (int64_range (tolist loc ! (i - 1) + tolist seq ! (i - 1)) \<longrightarrow>
                 tolist loc ! i = tolist loc ! (i - 1) + tolist seq ! (i - 1)))
      \<and> (\<forall>i < numel loc.
            tolist loc ! i = wrap_dtype Int64 (sum_list (take i (tolist seq)))
            \<and> (int64_range (sum_list (take i (tolist seq))) \<longrightarrow>
                 tolist loc ! i = sum_list (take i (tolist seq))))"
proof -
  from extend_result [OF extend_bearing_not_decode [OF mode] ok] obtain pl el esl where
    el: "extend_lens_cpu batch = Some el"
    and esl: "esl = (if el = [] then EmptyFloat32 else IntTensor Int64 el)"
    and seq: "extend_seq_lens ret = Some esl"
    and loc: "extend_start_loc ret
        = Some (setitem_from_1 (zeros_like esl) (torch_cumsum (slice_to_last esl)))"
    by blast
  let ?loc = "setitem_from_1 (zeros_like esl) (torch_cumsum (slice_to_last esl))"
  have tl: "tolist esl = el" using esl by simp
  have n: "numel ?loc = length el"
    using start_loc_length [OF esl] by (simp add: numel_def)
  have closed: "tolist ?loc ! i = wrap_dtype Int64 (sum_list (take i el))" if "i < length el" for i
    using start_loc_nth [OF esl that] .
  have step: "tolist ?loc ! i = wrap_dtype Int64 (tolist ?loc ! (i - 1) + el ! (i - 1))"
    if "0 < i" "i < length el" for i
  proof -
    from that obtain j where j: "i = Suc j" by (cases i) auto
    with that have jl: "j < length el" by simp
    have "sum_list (take (Suc j) el) = sum_list (take j el) + el ! j"
      using jl by (simp add: take_Suc_conv_app_nth)
    then show ?thesis
      using closed [OF that(2)] closed [OF jl] j wrap64_add_left [of "sum_list (take j el)" "el ! j"]
      by simp
  qed
  have A: "extend_lens_cpu batch = Some (tolist esl)"
    using el tl by simp
  have B: "numel ?loc = numel esl"
    using n tl by (simp add: numel_def)
  have C: "0 < numel ?loc \<longrightarrow> tolist ?loc ! 0 = 0"
    using closed [of 0] n by simp
  have D: "\<forall>i. 0 < i \<and> i < numel ?loc \<longrightarrow>
      tolist ?loc ! i = wrap_dtype Int64 (tolist ?loc ! (i - 1) + tolist esl ! (i - 1))
      \<and> (int64_range (tolist ?loc ! (i - 1) + tolist esl ! (i - 1)) \<longrightarrow>
           tolist ?loc ! i = tolist ?loc ! (i - 1) + tolist esl ! (i - 1))"
  proof (intro allI impI)
    fix i assume "0 < i \<and> i < numel ?loc"
    then have s: "tolist ?loc ! i = wrap_dtype Int64 (tolist ?loc ! (i - 1) + tolist esl ! (i - 1))"
      using step [of i] n tl by simp
    show "tolist ?loc ! i = wrap_dtype Int64 (tolist ?loc ! (i - 1) + tolist esl ! (i - 1))
      \<and> (int64_range (tolist ?loc ! (i - 1) + tolist esl ! (i - 1)) \<longrightarrow>
           tolist ?loc ! i = tolist ?loc ! (i - 1) + tolist esl ! (i - 1))"
      using s wrap64_id [of "tolist ?loc ! (i - 1) + tolist esl ! (i - 1)"]
      by (simp only:) blast
  qed
  have E: "\<forall>i < numel ?loc.
      tolist ?loc ! i = wrap_dtype Int64 (sum_list (take i (tolist esl)))
      \<and> (int64_range (sum_list (take i (tolist esl))) \<longrightarrow>
           tolist ?loc ! i = sum_list (take i (tolist esl)))"
  proof (intro allI impI)
    fix i assume "i < numel ?loc"
    then have s: "tolist ?loc ! i = wrap_dtype Int64 (sum_list (take i (tolist esl)))"
      using closed [of i] n tl by simp
    show "tolist ?loc ! i = wrap_dtype Int64 (sum_list (take i (tolist esl)))
      \<and> (int64_range (sum_list (take i (tolist esl))) \<longrightarrow>
           tolist ?loc ! i = sum_list (take i (tolist esl)))"
      using s wrap64_id [of "sum_list (take i (tolist esl))"]
      by (simp only:) blast
  qed
  show ?thesis
    apply (rule exI [of _ esl], rule exI [of _ ?loc])
    using seq loc A B C D E by (intro conjI) assumption+
qed

lemma ex_extend_assembles: "from_schedule_batch ex_library ex_extend_batch = Inr ex_extend_metadata"
  by (simp add: from_schedule_batch_def ex_extend_batch_def ex_extend_metadata_def ex_req_def
      is_decode_def ScheduleBatch_batch_size_def np_arange_def nonneg_int64_def
      int64_range_def positions_tensor_def np_concatenate_def torch_tensor_def upto.simps)

theorem extend_start_loc_prefix_sum_witness:
  "from_schedule_batch ex_library ex_extend_batch = Inr ex_extend_metadata
   \<and> ScheduleBatch.forward_mode ex_extend_batch \<in> {EXTEND, MIXED, PREFILL}
   \<and> extend_seq_lens ex_extend_metadata = Some (IntTensor Int64 [5, 0, 4])
   \<and> extend_start_loc ex_extend_metadata = Some (IntTensor Int64 [0, 5, 5])
   \<and> (\<exists>seq loc. extend_seq_lens ex_extend_metadata = Some seq
        \<and> extend_start_loc ex_extend_metadata = Some loc
        \<and> numel loc = numel seq
        \<and> tolist loc ! 2 = tolist loc ! 1 + tolist seq ! 1)"
proof -
  have m: "ScheduleBatch.forward_mode ex_extend_batch \<in> {EXTEND, MIXED, PREFILL}"
    by (simp add: ex_extend_batch_def)
  show ?thesis
    using extend_start_loc_prefix_sum [OF ex_extend_assembles m] ex_extend_assembles m
    by (simp add: ex_extend_metadata_def)
qed

lemma sum_take_concat:
  "i \<le> length el \<Longrightarrow> i \<le> length rs \<Longrightarrow> (\<forall>j<i. el ! j = int (length (rs ! j))) \<Longrightarrow>
     sum_list (take i el) = int (length (concat (take i rs)))"
proof (induction i)
  case 0
  then show ?case by simp
next
  case (Suc i)
  then have "sum_list (take i el) = int (length (concat (take i rs)))"
    by simp
  moreover have "el ! i = int (length (rs ! i))"
    using Suc.prems by simp
  ultimately show ?case
    using Suc.prems by (simp add: take_Suc_conv_app_nth)
qed

lemma length_concat_take_le: "length (concat (take i rs)) \<le> length (concat rs)"
proof -
  have "concat rs = concat (take i rs) @ concat (drop i rs)"
    by (metis append_take_drop_id concat_append)
  then show ?thesis
    by (metis le_add1 length_append)
qed

lemma slice_of_concat:
  assumes "i < length rs"
  shows "take (length (rs ! i)) (drop (length (concat (take i rs))) (concat rs)) = rs ! i"
proof -
  have "concat rs = concat (take i rs) @ concat (drop i rs)"
    by (metis append_take_drop_id concat_append)
  moreover have "drop i rs = rs ! i # drop (Suc i) rs"
    using assms by (simp add: Cons_nth_drop_Suc)
  ultimately show ?thesis by simp
qed

lemma nth_ranges:
  assumes "j < length rqs" "length rqs \<le> length pl"
  shows "map2 (\<lambda>p r. [p..fill_len r - 1]) pl rqs ! j = [pl ! j..fill_len (rqs ! j) - 1]"
  using assms by simp

text \<open>
  C1, as amended. Take an extend-bearing batch that assembles and whose prefix lengths
  are not negative. In its record, \<open>positions\<close> is the concatenation, in request order,
  of the ascending ranges from \<open>prefix_lens_cpu[i]\<close> up to but excluding \<open>len(fill_ids)\<close>
  of request \<open>i\<close>. \<open>extend_seq_lens\<close> is copied from the descriptor's \<open>extend_lens_cpu\<close>
  and not computed from these bounds; so the slice of \<open>positions\<close> that
  \<open>extend_start_loc[i]\<close> and \<open>extend_seq_lens[i]\<close> delimit is the range of request \<open>i\<close>
  provided that, for every request \<open>j\<close> up to \<open>i\<close>, the prefix length is at most the
  fill length and the descriptor's extend length is their difference (and \<open>positions\<close>
  has fewer than \<open>2^63\<close> entries, as every array has).
\<close>

theorem positions_ranges:
  assumes ok: "from_schedule_batch lib batch = Inr ret"
    and mode: "ScheduleBatch.forward_mode batch \<in> {EXTEND, MIXED, PREFILL}"
    and prefix: "prefix_lens_cpu batch = Some pl"
    and nonneg: "\<forall>j < length (reqs batch). 0 \<le> pl ! j"
  shows "\<exists>el pos. extend_lens_cpu batch = Some el
      \<and> positions ret = Some pos
      \<and> tolist pos = concat (map2 (\<lambda>p r. [p..fill_len r - 1]) pl (reqs batch))
      \<and> (\<forall>i. i < length (reqs batch) \<and> i < length el
            \<and> (\<forall>j\<le>i. pl ! j \<le> fill_len (reqs batch ! j)
                  \<and> el ! j = fill_len (reqs batch ! j) - pl ! j)
            \<and> int (numel pos) < 2 ^ 63
            \<longrightarrow> position_slice ret i = [pl ! i..fill_len (reqs batch ! i) - 1])"
proof -
  from extend_result [OF extend_bearing_not_decode [OF mode] ok] prefix
  obtain el esl arrays p where
    el: "extend_lens_cpu batch = Some el"
    and len: "length (reqs batch) \<le> length pl"
    and rng: "list_all int64_range pl"
    and esl: "esl = (if el = [] then EmptyFloat32 else IntTensor Int64 el)"
    and arrays: "position_ranges lib (Some pl) 0 (reqs batch) = Inr arrays"
    and tensor: "positions_tensor lib arrays = Inr p"
    and p: "positions ret = Some p"
    and seq: "extend_seq_lens ret = Some esl"
    and loc: "extend_start_loc ret
        = Some (setitem_from_1 (zeros_like esl) (torch_cumsum (slice_to_last esl)))"
    by auto
  have "\<forall>j < length (reqs batch). nonneg_int64 (pl ! j)"
    using nonneg rng len by (simp add: nonneg_int64_def int64_range_def list_all_length)
  from positions_of_nonneg [OF arrays tensor this] p
  have pos: "positions ret
      = Some (IntTensor Int64 (concat (map2 (\<lambda>p r. [p..fill_len r - 1]) pl (reqs batch))))"
    by simp
  let ?rs = "map2 (\<lambda>p r. [p..fill_len r - 1]) pl (reqs batch)"
  let ?pos = "IntTensor Int64 (concat ?rs)"
  let ?loc = "setitem_from_1 (zeros_like esl) (torch_cumsum (slice_to_last esl))"
  have lrs: "length ?rs = length (reqs batch)"
    using len by simp
  have tl: "tolist esl = el" using esl by simp
  have slice: "position_slice ret i = [pl ! i..fill_len (reqs batch ! i) - 1]"
    if i: "i < length (reqs batch)" and il: "i < length el"
      and c: "\<forall>j\<le>i. pl ! j \<le> fill_len (reqs batch ! j)
                \<and> el ! j = fill_len (reqs batch ! j) - pl ! j"
      and b: "int (numel ?pos) < 2 ^ 63" for i
  proof -
    have rj: "?rs ! j = [pl ! j..fill_len (reqs batch ! j) - 1]" if "j \<le> i" for j
      using nth_ranges [of j "reqs batch" pl] that i len by simp
    have lj: "el ! j = int (length (?rs ! j))" if "j \<le> i" for j
      using rj [OF that] c that by simp
    have s: "sum_list (take i el) = int (length (concat (take i ?rs)))"
      using sum_take_concat [of i el ?rs] il i lrs lj by simp
    have "int (length (concat (take i ?rs))) \<le> int (numel ?pos)"
      using length_concat_take_le [of i ?rs] by (simp add: numel_def)
    with b s have "int64_range (sum_list (take i el))"
      by (simp add: int64_range_def)
    then have li: "tolist ?loc ! i = int (length (concat (take i ?rs)))"
      using start_loc_nth [OF esl il] s by (simp only: wrap64_id)
    have "position_slice ret i
        = take (nat (el ! i)) (drop (nat (tolist ?loc ! i)) (concat ?rs))"
      using pos seq loc tl by (simp add: position_slice_def)
    also have "\<dots> = take (length (?rs ! i)) (drop (length (concat (take i ?rs))) (concat ?rs))"
      using li lj [of i] by simp
    also have "\<dots> = ?rs ! i"
      using slice_of_concat [of i ?rs] i lrs by simp
    finally show ?thesis
      using rj [of i] by simp
  qed
  show ?thesis
    apply (rule exI [of _ el], rule exI [of _ ?pos])
    using el pos slice by simp
qed

theorem positions_ranges_witness:
  "from_schedule_batch ex_library ex_extend_batch = Inr ex_extend_metadata
   \<and> ScheduleBatch.forward_mode ex_extend_batch \<in> {EXTEND, MIXED, PREFILL}
   \<and> prefix_lens_cpu ex_extend_batch = Some [0, 4, 2]
   \<and> positions ex_extend_metadata = Some (IntTensor Int64 [0, 1, 2, 3, 4, 2, 3, 4, 5])
   \<and> position_slice ex_extend_metadata 0 = [0, 1, 2, 3, 4]
   \<and> position_slice ex_extend_metadata 1 = []
   \<and> position_slice ex_extend_metadata 2 = [2, 3, 4, 5]"
proof -
  have m: "ScheduleBatch.forward_mode ex_extend_batch \<in> {EXTEND, MIXED, PREFILL}"
    by (simp add: ex_extend_batch_def)
  have pl: "prefix_lens_cpu ex_extend_batch = Some [0, 4, 2]"
    by (simp add: ex_extend_batch_def)
  have nn: "\<forall>j < length (reqs ex_extend_batch). 0 \<le> [0, 4, 2 :: int] ! j"
    by (simp add: ex_extend_batch_def less_Suc_eq)
  show ?thesis
    using positions_ranges [OF ex_extend_assembles m pl nn] ex_extend_assembles m pl
    by (simp add: ex_extend_metadata_def position_slice_def)
qed

text \<open>
  The slice property fails without the proviso on the extend lengths: with prefix
  lengths 0, 4, 2, fill lengths 5, 4, 6 and a descriptor whose \<open>extend_lens_cpu\<close> is
  3, 0, 4, the slice of request 0 is \<open>[0, 1, 2]\<close>, not the range from 0 up to 5.
\<close>

theorem positions_slice_counterexample:
  "ScheduleBatch.forward_mode ex_stale_batch = EXTEND
   \<and> prefix_lens_cpu ex_stale_batch = Some [0, 4, 2]
   \<and> map fill_len (reqs ex_stale_batch) = [5, 4, 6]
   \<and> from_schedule_batch ex_library ex_stale_batch = Inr ex_stale_metadata
   \<and> extend_seq_lens ex_stale_metadata = Some (IntTensor Int64 [3, 0, 4])
   \<and> extend_start_loc ex_stale_metadata = Some (IntTensor Int64 [0, 3, 3])
   \<and> position_slice ex_stale_metadata 0 = [0, 1, 2]
   \<and> position_slice ex_stale_metadata 0 \<noteq> [0..5 - 1]"
  by (simp add: from_schedule_batch_def ex_stale_batch_def ex_stale_metadata_def
      ex_extend_batch_def ex_extend_metadata_def ex_req_def fill_len_def position_slice_def
      is_decode_def ScheduleBatch_batch_size_def np_arange_def nonneg_int64_def
      int64_range_def positions_tensor_def np_concatenate_def torch_tensor_def upto.simps)

lemma length_new_tokens:
  assumes "0 \<le> p"
  shows "length (drop (nat p) (fill_ids r)) = length [p..fill_len r - 1]"
  using assms by (simp add: fill_len_def)

text \<open>
  C4. Take an extend-bearing batch that assembles and whose descriptor satisfies the
  scheduler's contract: one prefix length and one extend length per request, every
  prefix length between 0 and the fill length, every extend length the fill length
  minus the prefix length, and \<open>input_ids\<close> with as many entries as the requests have
  new tokens (\<open>fill_ids[prefix_len:]\<close> of each). Then the record is length-consistent:
  the sum of \<open>extend_seq_lens\<close> is the length of \<open>positions\<close>, which is the length of
  \<open>input_ids\<close>.
\<close>

theorem extend_lengths_consistent:
  assumes ok: "from_schedule_batch lib batch = Inr ret"
    and mode: "ScheduleBatch.forward_mode batch \<in> {EXTEND, MIXED, PREFILL}"
    and pl: "prefix_lens_cpu batch = Some pl"
    and el: "extend_lens_cpu batch = Some el"
    and lpl: "length pl = length (reqs batch)"
    and lel: "length el = length (reqs batch)"
    and contract: "\<forall>i < length (reqs batch).
        0 \<le> pl ! i \<and> pl ! i \<le> fill_len (reqs batch ! i)
        \<and> el ! i = fill_len (reqs batch ! i) - pl ! i"
    and ids: "numel (ScheduleBatch.input_ids batch)
        = length (concat (map2 (\<lambda>p r. drop (nat p) (fill_ids r)) pl (reqs batch)))"
  shows "\<exists>pos seq. positions ret = Some pos \<and> extend_seq_lens ret = Some seq
      \<and> sum_list (tolist seq) = int (numel pos)
      \<and> numel pos = numel (InputMetadata.input_ids ret)"
proof -
  from extend_result [OF extend_bearing_not_decode [OF mode] ok] pl el
  obtain esl arrays p where
    esl: "esl = (if el = [] then EmptyFloat32 else IntTensor Int64 el)"
    and rng: "list_all int64_range pl"
    and arrays: "position_ranges lib (Some pl) 0 (reqs batch) = Inr arrays"
    and tensor: "positions_tensor lib arrays = Inr p"
    and p: "positions ret = Some p"
    and seq: "extend_seq_lens ret = Some esl"
    and inp: "InputMetadata.input_ids ret = ScheduleBatch.input_ids batch"
    by auto
  have "\<forall>j < length (reqs batch). nonneg_int64 (pl ! j)"
    using contract rng lpl by (simp add: nonneg_int64_def int64_range_def list_all_length)
  from positions_of_nonneg [OF arrays tensor this] p
  have pos: "positions ret
      = Some (IntTensor Int64 (concat (map2 (\<lambda>p r. [p..fill_len r - 1]) pl (reqs batch))))"
    by simp
  let ?rs = "map2 (\<lambda>p r. [p..fill_len r - 1]) pl (reqs batch)"
  let ?new = "map2 (\<lambda>p r. drop (nat p) (fill_ids r)) pl (reqs batch)"
  let ?pos = "IntTensor Int64 (concat ?rs)"
  have tl: "tolist esl = el" using esl by simp
  have lrs: "length ?rs = length (reqs batch)"
    using lpl by simp
  have lj: "el ! j = int (length (?rs ! j))" if "j < length (reqs batch)" for j
    using that contract lpl by simp
  have "sum_list (take (length el) el) = int (length (concat (take (length el) ?rs)))"
    using sum_take_concat [of "length el" el ?rs] lel lrs lj by simp
  then have s: "sum_list el = int (numel ?pos)"
    using lel lrs by (simp add: numel_def)
  have "map length ?new = map length ?rs"
  proof (rule nth_equalityI)
    show "length (map length ?new) = length (map length ?rs)" by simp
  next
    fix j assume "j < length (map length ?new)"
    then have j: "j < length (reqs batch)" "j < length pl" by simp_all
    with contract have "0 \<le> pl ! j" by simp
    from length_new_tokens [OF this, of "reqs batch ! j"] j
    show "map length ?new ! j = map length ?rs ! j" by simp
  qed
  then have "length (concat ?new) = length (concat ?rs)"
    by (simp only: length_concat)
  with ids have n: "numel ?pos = numel (ScheduleBatch.input_ids batch)"
    by (simp add: numel_def)
  show ?thesis
    apply (rule exI [of _ ?pos], rule exI [of _ esl])
    using pos seq s n tl inp by simp
qed


theorem extend_lengths_consistent_witness:
  "from_schedule_batch ex_library ex_extend_batch = Inr ex_extend_metadata
   \<and> ScheduleBatch.forward_mode ex_extend_batch \<in> {EXTEND, MIXED, PREFILL}
   \<and> prefix_lens_cpu ex_extend_batch = Some [0, 4, 2]
   \<and> extend_lens_cpu ex_extend_batch = Some [5, 0, 4]
   \<and> map fill_len (reqs ex_extend_batch) = [5, 4, 6]
   \<and> numel (ScheduleBatch.input_ids ex_extend_batch) = 9
   \<and> (\<exists>pos seq. positions ex_extend_metadata = Some pos
        \<and> extend_seq_lens ex_extend_metadata = Some seq
        \<and> sum_list (tolist seq) = 9 \<and> numel pos = 9
        \<and> numel (InputMetadata.input_ids ex_extend_metadata) = 9)"
proof -
  have m: "ScheduleBatch.forward_mode ex_extend_batch \<in> {EXTEND, MIXED, PREFILL}"
    by (simp add: ex_extend_batch_def)
  have pl: "prefix_lens_cpu ex_extend_batch = Some [0, 4, 2]"
    by (simp add: ex_extend_batch_def)
  have el: "extend_lens_cpu ex_extend_batch = Some [5, 0, 4]"
    by (simp add: ex_extend_batch_def)
  have fl: "map fill_len (reqs ex_extend_batch) = [5, 4, 6]"
    by (simp add: ex_extend_batch_def ex_req_def fill_len_def)
  have c: "\<forall>i < length (reqs ex_extend_batch).
      0 \<le> [0, 4, 2 :: int] ! i \<and> [0, 4, 2] ! i \<le> fill_len (reqs ex_extend_batch ! i)
      \<and> [5, 0, 4] ! i = fill_len (reqs ex_extend_batch ! i) - [0, 4, 2] ! i"
    by (simp add: ex_extend_batch_def ex_req_def fill_len_def less_Suc_eq)
  have ids: "numel (ScheduleBatch.input_ids ex_extend_batch)
      = length (concat (map2 (\<lambda>p r. drop (nat p) (fill_ids r)) [0, 4, 2] (reqs ex_extend_batch)))"
    by (simp add: ex_extend_batch_def ex_req_def numel_def)
  have n: "numel (ScheduleBatch.input_ids ex_extend_batch) = 9"
    by (simp add: ex_extend_batch_def numel_def)
  have l1: "length [0, 4, 2 :: int] = length (reqs ex_extend_batch)"
    by (simp add: ex_extend_batch_def)
  have l2: "length [5, 0, 4 :: int] = length (reqs ex_extend_batch)"
    by (simp add: ex_extend_batch_def)
  show ?thesis
    using extend_lengths_consistent [OF ex_extend_assembles m pl el l1 l2 c ids]
      ex_extend_assembles m pl el fl n
    by (simp add: ex_extend_metadata_def numel_def)
qed

section \<open>PREFILL and EXTEND\<close>

text \<open>
  C8. For a PREFILL batch, assembly takes the branch it takes for EXTEND (neither mode
  is the decode mode), fails exactly when the same batch marked EXTEND fails, with the
  same error, and otherwise returns the record of the EXTEND batch with the mode tag
  PREFILL: the records agree in every other field.
\<close>

theorem prefill_as_extend:
  assumes "ScheduleBatch.forward_mode batch = PREFILL"
  shows "\<not> is_decode (ScheduleBatch.forward_mode batch) \<and> \<not> is_decode EXTEND
     \<and> from_schedule_batch lib batch
        = map_sum id (\<lambda>ret. ret\<lparr>InputMetadata.forward_mode := PREFILL\<rparr>)
            (from_schedule_batch lib (batch\<lparr>ScheduleBatch.forward_mode := EXTEND\<rparr>))
     \<and> (\<forall>e. from_schedule_batch lib batch = Inl e \<longleftrightarrow>
            from_schedule_batch lib (batch\<lparr>ScheduleBatch.forward_mode := EXTEND\<rparr>) = Inl e)
     \<and> (\<forall>ret. from_schedule_batch lib (batch\<lparr>ScheduleBatch.forward_mode := EXTEND\<rparr>) = Inr ret \<longrightarrow>
            from_schedule_batch lib batch = Inr (ret\<lparr>InputMetadata.forward_mode := PREFILL\<rparr>))"
proof -
  have eq: "from_schedule_batch lib batch
        = map_sum id (\<lambda>ret. ret\<lparr>InputMetadata.forward_mode := PREFILL\<rparr>)
            (from_schedule_batch lib (batch\<lparr>ScheduleBatch.forward_mode := EXTEND\<rparr>))"
    using assms
    by (simp add: from_schedule_batch_def is_decode_iff ScheduleBatch_batch_size_def
        split: sum.splits)
  have "from_schedule_batch lib batch = Inl e \<longleftrightarrow>
      from_schedule_batch lib (batch\<lparr>ScheduleBatch.forward_mode := EXTEND\<rparr>) = Inl e" for e
    by (cases "from_schedule_batch lib (batch\<lparr>ScheduleBatch.forward_mode := EXTEND\<rparr>)")
      (simp_all add: eq)
  moreover have "from_schedule_batch lib batch = Inr (ret\<lparr>InputMetadata.forward_mode := PREFILL\<rparr>)"
    if "from_schedule_batch lib (batch\<lparr>ScheduleBatch.forward_mode := EXTEND\<rparr>) = Inr ret" for ret
    using that by (simp add: eq)
  ultimately show ?thesis
    using eq assms by (simp add: is_decode_iff)
qed

theorem prefill_as_extend_witness:
  "ScheduleBatch.forward_mode ex_prefill_batch = PREFILL
   \<and> ex_prefill_batch\<lparr>ScheduleBatch.forward_mode := EXTEND\<rparr> = ex_extend_batch
   \<and> from_schedule_batch ex_library ex_extend_batch = Inr ex_extend_metadata
   \<and> from_schedule_batch ex_library ex_prefill_batch
       = Inr (ex_extend_metadata\<lparr>InputMetadata.forward_mode := PREFILL\<rparr>)"
proof -
  have m: "ScheduleBatch.forward_mode ex_prefill_batch = PREFILL"
    by (simp add: ex_prefill_batch_def)
  have e: "ex_prefill_batch\<lparr>ScheduleBatch.forward_mode := EXTEND\<rparr> = ex_extend_batch"
    by (simp add: ex_prefill_batch_def ex_extend_batch_def)
  show ?thesis
    using prefill_as_extend [where lib = ex_library, OF m] m e ex_extend_assembles by simp
qed

section \<open>What assembly checks\<close>

lemma nonneg_int64_range: "list_all nonneg_int64 pl \<Longrightarrow> list_all int64_range pl"
  by (induction pl) (simp_all add: nonneg_int64_def int64_range_def)

lemma positions_tensor_int64:
  "rs \<noteq> [] \<Longrightarrow> positions_tensor lib (map Int64Array rs) = Inr (IntTensor Int64 (concat rs))"
  by (simp add: positions_tensor_def int64_arrays_map np_concatenate_def)

lemma position_ranges_Some:
  "list_all nonneg_int64 pl \<Longrightarrow>
     position_ranges lib (Some pl) i rs =
       (if rs = [] \<or> i + length rs \<le> length pl
        then Inr (map Int64Array (map2 (\<lambda>p r. [p..fill_len r - 1]) (drop i pl) rs))
        else Inl IndexError)"
proof (induction rs arbitrary: i)
  case Nil
  then show ?case by simp
next
  case (Cons r rs)
  show ?case
  proof (cases "i < length pl")
    case False
    then show ?thesis by simp
  next
    case True
    with Cons.prems have p: "nonneg_int64 (pl ! i)"
      by (simp add: list_all_length)
    have d: "drop i pl = pl ! i # drop (Suc i) pl"
      using True by (simp add: Cons_nth_drop_Suc)
    show ?thesis
      using True p d Cons.IH [OF Cons.prems, of "Suc i"]
      by (auto simp add: np_arange_def fill_len_def)
  qed
qed

lemma position_ranges_ok:
  assumes "reqs batch \<noteq> []" "length (reqs batch) \<le> length pl" "list_all nonneg_int64 pl"
  shows "\<exists>rs. rs \<noteq> [] \<and> position_ranges lib (Some pl) 0 (reqs batch) = Inr (map Int64Array rs)"
proof -
  have "position_ranges lib (Some pl) 0 (reqs batch)
      = Inr (map Int64Array (map2 (\<lambda>p r. [p..fill_len r - 1]) pl (reqs batch)))"
    using position_ranges_Some [OF assms(3), of lib 0 "reqs batch"] assms(2) by simp
  moreover have "map2 (\<lambda>p r. [p..fill_len r - 1]) pl (reqs batch) \<noteq> []"
    using assms(1,2) by (cases pl; cases "reqs batch") simp_all
  ultimately show ?thesis by blast
qed

lemma empty_batch_fails:
  assumes "ScheduleBatch.forward_mode batch \<noteq> DECODE" "reqs batch = []"
  shows "from_schedule_batch lib batch = Inl ValueError"
  using assms
  by (simp add: from_schedule_batch_def is_decode_iff positions_tensor_def np_concatenate_def)

lemma missing_prefix_lens_fails:
  assumes "ScheduleBatch.forward_mode batch \<noteq> DECODE" "reqs batch \<noteq> []"
    "prefix_lens_cpu batch = None"
  shows "from_schedule_batch lib batch = Inl TypeError"
proof -
  from assms(2) obtain r rs where "reqs batch = r # rs" by (cases "reqs batch") auto
  with assms show ?thesis
    by (simp add: from_schedule_batch_def is_decode_iff)
qed

lemma short_prefix_lens_fails:
  assumes "ScheduleBatch.forward_mode batch \<noteq> DECODE"
    "prefix_lens_cpu batch = Some pl" "length pl < length (reqs batch)"
    "list_all nonneg_int64 pl"
  shows "from_schedule_batch lib batch = Inl IndexError"
proof -
  have "position_ranges lib (Some pl) 0 (reqs batch) = Inl IndexError"
    using position_ranges_Some [OF assms(4), of lib 0 "reqs batch"] assms(3) by auto
  with assms show ?thesis
    by (simp add: from_schedule_batch_def is_decode_iff)
qed

lemma missing_extend_lens_fails:
  assumes "ScheduleBatch.forward_mode batch \<noteq> DECODE" "reqs batch \<noteq> []"
    "prefix_lens_cpu batch = Some pl" "length (reqs batch) \<le> length pl"
    "list_all nonneg_int64 pl" "extend_lens_cpu batch = None"
  shows "from_schedule_batch lib batch = Inl RuntimeError"
proof -
  from position_ranges_ok [OF assms(2,4,5)] obtain rs where
    "rs \<noteq> []" "position_ranges lib (Some pl) 0 (reqs batch) = Inr (map Int64Array rs)"
    by blast
  then show ?thesis
    using assms
    by (simp add: from_schedule_batch_def is_decode_iff positions_tensor_int64 torch_tensor_def)
qed

lemma extend_assembles:
  assumes "ScheduleBatch.forward_mode batch \<noteq> DECODE" "reqs batch \<noteq> []"
    "prefix_lens_cpu batch = Some pl" "length (reqs batch) \<le> length pl"
    "list_all nonneg_int64 pl" "extend_lens_cpu batch = Some el" "list_all int64_range el"
  shows "\<exists>ret. from_schedule_batch lib batch = Inr ret"
proof -
  from position_ranges_ok [OF assms(2,4,5)] obtain rs where
    "rs \<noteq> []" "position_ranges lib (Some pl) 0 (reqs batch) = Inr (map Int64Array rs)"
    by blast
  then show ?thesis
    using assms nonneg_int64_range [OF assms(5)]
    by (simp add: from_schedule_batch_def is_decode_iff positions_tensor_int64 torch_tensor_def)
qed

lemma decode_ignores_extend_fields:
  assumes "ScheduleBatch.forward_mode batch = DECODE"
  shows "from_schedule_batch lib batch
     = from_schedule_batch lib (batch\<lparr>prefix_lens_cpu := None, extend_lens_cpu := None,
         ScheduleBatch.extend_logprob_start_lens_cpu := None\<rparr>)"
  using assms by (simp add: decode_result)

text \<open>
  C5, as amended. Assembly does not compare the descriptor's fields with its mode and
  has no ConfigurationError. Under DECODE the extend-only host lists are ignored: the
  batch assembles to the record it would assemble to without them, and the record's
  extend fields stay unset. Under an extend-bearing mode a descriptor without
  \<open>prefix_lens_cpu\<close> or without \<open>extend_lens_cpu\<close> never assembles: no record is returned;
  with requests present the error is a TypeError when \<open>prefix_lens_cpu\<close> is missing, and
  a RuntimeError when \<open>extend_lens_cpu\<close> is missing and \<open>prefix_lens_cpu\<close> holds
  non-negative int64 values, one at least for every request.
\<close>

theorem mode_field_mismatch:
  "(ScheduleBatch.forward_mode batch = DECODE \<longrightarrow>
      (\<exists>ret. from_schedule_batch lib batch = Inr ret
         \<and> from_schedule_batch lib (batch\<lparr>prefix_lens_cpu := None, extend_lens_cpu := None,
               ScheduleBatch.extend_logprob_start_lens_cpu := None\<rparr>) = Inr ret
         \<and> extend_seq_lens ret = None \<and> extend_prefix_lens ret = None
         \<and> extend_start_loc ret = None \<and> extend_seq_lens_cpu ret = None
         \<and> InputMetadata.extend_logprob_start_lens_cpu ret = None
         \<and> image_inputs ret = None))
   \<and> (ScheduleBatch.forward_mode batch \<in> {EXTEND, MIXED, PREFILL}
        \<and> (prefix_lens_cpu batch = None \<or> extend_lens_cpu batch = None) \<longrightarrow>
          (\<exists>e. from_schedule_batch lib batch = Inl e))
   \<and> (ScheduleBatch.forward_mode batch \<in> {EXTEND, MIXED, PREFILL} \<and> reqs batch \<noteq> []
        \<and> prefix_lens_cpu batch = None \<longrightarrow>
          from_schedule_batch lib batch = Inl TypeError)
   \<and> (ScheduleBatch.forward_mode batch \<in> {EXTEND, MIXED, PREFILL} \<and> reqs batch \<noteq> []
        \<and> extend_lens_cpu batch = None
        \<and> (\<exists>pl. prefix_lens_cpu batch = Some pl \<and> length (reqs batch) \<le> length pl
              \<and> list_all nonneg_int64 pl) \<longrightarrow>
          from_schedule_batch lib batch = Inl RuntimeError)"
proof (intro conjI impI)
  assume d: "ScheduleBatch.forward_mode batch = DECODE"
  show "\<exists>ret. from_schedule_batch lib batch = Inr ret
         \<and> from_schedule_batch lib (batch\<lparr>prefix_lens_cpu := None, extend_lens_cpu := None,
               ScheduleBatch.extend_logprob_start_lens_cpu := None\<rparr>) = Inr ret
         \<and> extend_seq_lens ret = None \<and> extend_prefix_lens ret = None
         \<and> extend_start_loc ret = None \<and> extend_seq_lens_cpu ret = None
         \<and> InputMetadata.extend_logprob_start_lens_cpu ret = None
         \<and> image_inputs ret = None"
  proof -
    have d': "ScheduleBatch.forward_mode (batch\<lparr>prefix_lens_cpu := None, extend_lens_cpu := None,
               ScheduleBatch.extend_logprob_start_lens_cpu := None\<rparr>) = DECODE"
      using d by simp
    show ?thesis
      by (simp add: decode_result [OF d] decode_result [OF d'])
  qed
next
  assume a: "ScheduleBatch.forward_mode batch \<in> {EXTEND, MIXED, PREFILL}
        \<and> (prefix_lens_cpu batch = None \<or> extend_lens_cpu batch = None)"
  then have nd: "ScheduleBatch.forward_mode batch \<noteq> DECODE" by auto
  show "\<exists>e. from_schedule_batch lib batch = Inl e"
  proof (cases "from_schedule_batch lib batch")
    case (Inl e)
    then show ?thesis by simp
  next
    case (Inr ret)
    from extend_result [OF nd Inr] a show ?thesis by auto
  qed
next
  assume "ScheduleBatch.forward_mode batch \<in> {EXTEND, MIXED, PREFILL} \<and> reqs batch \<noteq> []
        \<and> prefix_lens_cpu batch = None"
  then show "from_schedule_batch lib batch = Inl TypeError"
    using missing_prefix_lens_fails [of batch] by auto
next
  assume "ScheduleBatch.forward_mode batch \<in> {EXTEND, MIXED, PREFILL} \<and> reqs batch \<noteq> []
        \<and> extend_lens_cpu batch = None
        \<and> (\<exists>pl. prefix_lens_cpu batch = Some pl \<and> length (reqs batch) \<le> length pl
              \<and> list_all nonneg_int64 pl)"
  then show "from_schedule_batch lib batch = Inl RuntimeError"
    using missing_extend_lens_fails [of batch] by auto
qed

lemma ex_decode_with_extend_fields_assembles:
  "from_schedule_batch ex_library ex_decode_with_extend_fields = Inr ex_decode_with_extend_fields_metadata"
  by (simp add: from_schedule_batch_def ex_decode_with_extend_fields_def
      ex_decode_with_extend_fields_metadata_def ex_extend_batch_def ex_req_def
      is_decode_def ScheduleBatch_batch_size_def)

theorem mode_field_mismatch_witness:
  "ScheduleBatch.forward_mode ex_decode_with_extend_fields = DECODE
   \<and> from_schedule_batch ex_library ex_decode_with_extend_fields
       = Inr ex_decode_with_extend_fields_metadata
   \<and> extend_seq_lens ex_decode_with_extend_fields_metadata = None
   \<and> ScheduleBatch.forward_mode ex_extend_without_prefix_lens \<in> {EXTEND, MIXED, PREFILL}
   \<and> reqs ex_extend_without_prefix_lens \<noteq> []
   \<and> prefix_lens_cpu ex_extend_without_prefix_lens = None
   \<and> from_schedule_batch ex_library ex_extend_without_prefix_lens = Inl TypeError
   \<and> ScheduleBatch.forward_mode ex_extend_without_extend_lens \<in> {EXTEND, MIXED, PREFILL}
   \<and> reqs ex_extend_without_extend_lens \<noteq> []
   \<and> extend_lens_cpu ex_extend_without_extend_lens = None
   \<and> prefix_lens_cpu ex_extend_without_extend_lens = Some [0, 4, 2]
   \<and> from_schedule_batch ex_library ex_extend_without_extend_lens = Inl RuntimeError"
proof -
  have d: "ScheduleBatch.forward_mode ex_decode_with_extend_fields = DECODE"
    "extend_seq_lens ex_decode_with_extend_fields_metadata = None"
    by (simp_all add: ex_decode_with_extend_fields_def ex_extend_batch_def
        ex_decode_with_extend_fields_metadata_def)
  have a: "ScheduleBatch.forward_mode ex_extend_without_prefix_lens \<in> {EXTEND, MIXED, PREFILL}"
    "reqs ex_extend_without_prefix_lens \<noteq> []"
    "prefix_lens_cpu ex_extend_without_prefix_lens = None"
    by (simp_all add: ex_extend_without_prefix_lens_def ex_extend_batch_def)
  with mode_field_mismatch [where batch = ex_extend_without_prefix_lens and lib = ex_library]
  have a': "from_schedule_batch ex_library ex_extend_without_prefix_lens = Inl TypeError"
    by blast
  have b: "ScheduleBatch.forward_mode ex_extend_without_extend_lens \<in> {EXTEND, MIXED, PREFILL}"
    "reqs ex_extend_without_extend_lens \<noteq> []"
    "extend_lens_cpu ex_extend_without_extend_lens = None"
    "prefix_lens_cpu ex_extend_without_extend_lens = Some [0, 4, 2]"
    by (simp_all add: ex_extend_without_extend_lens_def ex_extend_batch_def)
  have "length (reqs ex_extend_without_extend_lens) \<le> length [0, 4, 2 :: int]"
    "list_all nonneg_int64 [0, 4, 2]"
    by (simp_all add: ex_extend_without_extend_lens_def ex_extend_batch_def nonneg_int64_def)
  with mode_field_mismatch [where batch = ex_extend_without_extend_lens and lib = ex_library] b
  have b': "from_schedule_batch ex_library ex_extend_without_extend_lens = Inl RuntimeError"
    by blast
  show ?thesis
    using d a a' b b' ex_decode_with_extend_fields_assembles by simp
qed

text \<open>
  A DECODE descriptor that supplies all three extend-only host lists is not refused:
  it assembles.
\<close>

theorem mode_field_mismatch_counterexample:
  "ScheduleBatch.forward_mode ex_decode_with_extend_fields = DECODE
   \<and> prefix_lens_cpu ex_decode_with_extend_fields = Some [0, 4, 2]
   \<and> extend_lens_cpu ex_decode_with_extend_fields = Some [5, 0, 4]
   \<and> ScheduleBatch.extend_logprob_start_lens_cpu ex_decode_with_extend_fields = Some [0, 0, 0]
   \<and> from_schedule_batch ex_library ex_decode_with_extend_fields
       = Inr ex_decode_with_extend_fields_metadata"
  by (simp add: from_schedule_batch_def ex_decode_with_extend_fields_def
      ex_decode_with_extend_fields_metadata_def ex_extend_batch_def ex_req_def
      is_decode_def ScheduleBatch_batch_size_def)

text \<open>
  C6, as amended. Assembly compares no lengths and has no InvalidBatch error. With no
  requests, an extend-bearing batch fails with the ValueError of \<open>np.concatenate\<close>, and a
  DECODE batch assembles, with \<open>batch_size\<close> 0; a DECODE batch assembles whatever the
  lengths of its arrays are. An extend-bearing batch whose \<open>prefix_lens_cpu\<close> (of
  non-negative int64 values) is shorter than its request list fails with IndexError.
  Every other length mismatch is accepted: an extend-bearing batch with a request
  assembles as soon as \<open>prefix_lens_cpu\<close> has at least one entry per request and holds
  non-negative int64 values and \<open>extend_lens_cpu\<close> holds int64 values, whatever the
  length of \<open>extend_lens_cpu\<close> and of the tensors.
\<close>

theorem length_checks:
  "(ScheduleBatch.forward_mode batch \<in> {EXTEND, MIXED, PREFILL} \<and> reqs batch = [] \<longrightarrow>
      from_schedule_batch lib batch = Inl ValueError)
   \<and> (ScheduleBatch.forward_mode batch = DECODE \<longrightarrow>
        (\<exists>ret. from_schedule_batch lib batch = Inr ret
           \<and> batch_size ret = length (reqs batch)
           \<and> positions ret
               = Some (tensor_to_int64 (tensor_sub_scalar (ScheduleBatch.seq_lens batch) 1))))
   \<and> (ScheduleBatch.forward_mode batch \<in> {EXTEND, MIXED, PREFILL}
        \<and> (\<exists>pl. prefix_lens_cpu batch = Some pl \<and> length pl < length (reqs batch)
              \<and> list_all nonneg_int64 pl) \<longrightarrow>
          from_schedule_batch lib batch = Inl IndexError)
   \<and> (ScheduleBatch.forward_mode batch \<in> {EXTEND, MIXED, PREFILL} \<and> reqs batch \<noteq> []
        \<and> (\<exists>pl el. prefix_lens_cpu batch = Some pl \<and> length (reqs batch) \<le> length pl
              \<and> list_all nonneg_int64 pl
              \<and> extend_lens_cpu batch = Some el \<and> list_all int64_range el) \<longrightarrow>
          (\<exists>ret. from_schedule_batch lib batch = Inr ret))"
proof (intro conjI impI)
  assume "ScheduleBatch.forward_mode batch \<in> {EXTEND, MIXED, PREFILL} \<and> reqs batch = []"
  then show "from_schedule_batch lib batch = Inl ValueError"
    using empty_batch_fails [of batch] by auto
next
  assume d: "ScheduleBatch.forward_mode batch = DECODE"
  show "\<exists>ret. from_schedule_batch lib batch = Inr ret
           \<and> batch_size ret = length (reqs batch)
           \<and> positions ret
               = Some (tensor_to_int64 (tensor_sub_scalar (ScheduleBatch.seq_lens batch) 1))"
    by (simp add: decode_result [OF d])
next
  assume "ScheduleBatch.forward_mode batch \<in> {EXTEND, MIXED, PREFILL}
        \<and> (\<exists>pl. prefix_lens_cpu batch = Some pl \<and> length pl < length (reqs batch)
              \<and> list_all nonneg_int64 pl)"
  then show "from_schedule_batch lib batch = Inl IndexError"
    using short_prefix_lens_fails [of batch] by auto
next
  assume "ScheduleBatch.forward_mode batch \<in> {EXTEND, MIXED, PREFILL} \<and> reqs batch \<noteq> []
        \<and> (\<exists>pl el. prefix_lens_cpu batch = Some pl \<and> length (reqs batch) \<le> length pl
              \<and> list_all nonneg_int64 pl
              \<and> extend_lens_cpu batch = Some el \<and> list_all int64_range el)"
  then show "\<exists>ret. from_schedule_batch lib batch = Inr ret"
    using extend_assembles [of batch] by auto
qed

lemma ex_mismatched_extend_assembles:
  "from_schedule_batch ex_library ex_mismatched_extend = Inr ex_mismatched_extend_metadata"
  by (simp add: from_schedule_batch_def ex_mismatched_extend_def ex_mismatched_extend_metadata_def
      ex_extend_batch_def ex_extend_metadata_def ex_req_def
      is_decode_def ScheduleBatch_batch_size_def np_arange_def nonneg_int64_def
      int64_range_def positions_tensor_def np_concatenate_def torch_tensor_def upto.simps)

lemma ex_mismatched_decode_assembles:
  "from_schedule_batch ex_library ex_mismatched_decode = Inr ex_mismatched_decode_metadata"
  by (simp add: from_schedule_batch_def ex_mismatched_decode_def ex_mismatched_decode_metadata_def
      ex_decode_batch_def ex_decode_metadata_def ex_req_def
      is_decode_def ScheduleBatch_batch_size_def)

theorem length_checks_witness:
  "ScheduleBatch.forward_mode ex_empty_extend \<in> {EXTEND, MIXED, PREFILL}
   \<and> reqs ex_empty_extend = []
   \<and> from_schedule_batch ex_library ex_empty_extend = Inl ValueError
   \<and> ScheduleBatch.forward_mode ex_short_prefix_lens \<in> {EXTEND, MIXED, PREFILL}
   \<and> prefix_lens_cpu ex_short_prefix_lens = Some [0, 4]
   \<and> length (reqs ex_short_prefix_lens) = 3
   \<and> from_schedule_batch ex_library ex_short_prefix_lens = Inl IndexError
   \<and> ScheduleBatch.forward_mode ex_mismatched_decode = DECODE
   \<and> from_schedule_batch ex_library ex_mismatched_decode = Inr ex_mismatched_decode_metadata
   \<and> batch_size ex_mismatched_decode_metadata = 2
   \<and> positions ex_mismatched_decode_metadata = Some (IntTensor Int64 [9, 2, 6])
   \<and> ScheduleBatch.forward_mode ex_mismatched_extend \<in> {EXTEND, MIXED, PREFILL}
   \<and> from_schedule_batch ex_library ex_mismatched_extend = Inr ex_mismatched_extend_metadata"
proof -
  have a: "ScheduleBatch.forward_mode ex_empty_extend \<in> {EXTEND, MIXED, PREFILL}"
    "reqs ex_empty_extend = []"
    by (simp_all add: ex_empty_extend_def ex_extend_batch_def)
  with length_checks [where batch = ex_empty_extend and lib = ex_library]
  have a': "from_schedule_batch ex_library ex_empty_extend = Inl ValueError" by blast
  have b: "ScheduleBatch.forward_mode ex_short_prefix_lens \<in> {EXTEND, MIXED, PREFILL}"
    "prefix_lens_cpu ex_short_prefix_lens = Some [0, 4]"
    "length (reqs ex_short_prefix_lens) = 3"
    by (simp_all add: ex_short_prefix_lens_def ex_extend_batch_def)
  have "length [0, 4 :: int] < length (reqs ex_short_prefix_lens)"
    "list_all nonneg_int64 [0, 4]"
    using b(3) by (simp_all add: nonneg_int64_def)
  with length_checks [where batch = ex_short_prefix_lens and lib = ex_library] b
  have b': "from_schedule_batch ex_library ex_short_prefix_lens = Inl IndexError" by blast
  have c: "ScheduleBatch.forward_mode ex_mismatched_decode = DECODE"
    "batch_size ex_mismatched_decode_metadata = 2"
    "positions ex_mismatched_decode_metadata = Some (IntTensor Int64 [9, 2, 6])"
    by (simp_all add: ex_mismatched_decode_def ex_decode_batch_def
        ex_mismatched_decode_metadata_def ex_decode_metadata_def)
  have e: "ScheduleBatch.forward_mode ex_mismatched_extend \<in> {EXTEND, MIXED, PREFILL}"
    by (simp add: ex_mismatched_extend_def ex_extend_batch_def)
  show ?thesis
    using a a' b b' c e ex_mismatched_decode_assembles ex_mismatched_extend_assembles
    by simp
qed

text \<open>
  Descriptors whose per-request arrays differ in length are not refused: the DECODE
  example with three sequence lengths for two requests assembles, and so does the
  EXTEND example with four prefix and extend lengths for three requests.
\<close>

theorem length_checks_counterexample:
  "length (reqs ex_mismatched_decode) = 2
   \<and> numel (ScheduleBatch.seq_lens ex_mismatched_decode) = 3
   \<and> from_schedule_batch ex_library ex_mismatched_decode = Inr ex_mismatched_decode_metadata
   \<and> length (reqs ex_mismatched_extend) = 3
   \<and> prefix_lens_cpu ex_mismatched_extend = Some [0, 4, 2, 9]
   \<and> extend_lens_cpu ex_mismatched_extend = Some [5, 0, 4, 7]
   \<and> from_schedule_batch ex_library ex_mismatched_extend = Inr ex_mismatched_extend_metadata"
  by (simp add: from_schedule_batch_def ex_mismatched_decode_def ex_mismatched_decode_metadata_def
      ex_mismatched_extend_def ex_mismatched_extend_metadata_def
      ex_decode_batch_def ex_decode_metadata_def
      ex_extend_batch_def ex_extend_metadata_def ex_req_def numel_def
      is_decode_def ScheduleBatch_batch_size_def np_arange_def nonneg_int64_def
      int64_range_def positions_tensor_def np_concatenate_def torch_tensor_def upto.simps)

section \<open>Fields set in every mode and fields set on extend-bearing passes only\<close>

lemma ex_decode_assembles: "from_schedule_batch ex_library ex_decode_batch = Inr ex_decode_metadata"
  by (simp add: from_schedule_batch_def ex_decode_batch_def ex_decode_metadata_def ex_req_def
      is_decode_def ScheduleBatch_batch_size_def)

text \<open>
  C10. A DECODE batch always assembles, and whatever its \<open>return_logprob\<close> flag, the
  record's \<open>extend_seq_lens_cpu\<close>, \<open>extend_logprob_start_lens_cpu\<close> and \<open>image_inputs\<close> stay
  unset, while \<open>return_logprob\<close>, \<open>top_logprobs_nums\<close> and \<open>lora_paths\<close> are set from the
  batch. An extend-bearing batch with a request, a prefix length that is an ordinary
  length for every request and extend lengths within 64 bits assembles, and its record
  has all six fields set: the two host mirrors are the batch's \<open>extend_lens_cpu\<close> and
  \<open>extend_logprob_start_lens_cpu\<close>, and \<open>image_inputs\<close> lists the requests' image inputs.
  Whenever a batch assembles, in any mode, the record carries the batch's
  \<open>return_logprob\<close> and \<open>top_logprobs_nums\<close> and the requests' \<open>lora_path\<close>s, and outside
  DECODE the three extend-only fields as just said.
\<close>

theorem logprob_mirrors:
  "(ScheduleBatch.forward_mode batch = DECODE \<longrightarrow>
      (\<exists>ret. from_schedule_batch lib batch = Inr ret
         \<and> InputMetadata.return_logprob ret = ScheduleBatch.return_logprob batch
         \<and> InputMetadata.top_logprobs_nums ret = ScheduleBatch.top_logprobs_nums batch
         \<and> lora_paths ret = Some (map lora_path (reqs batch))
         \<and> extend_seq_lens_cpu ret = None
         \<and> InputMetadata.extend_logprob_start_lens_cpu ret = None
         \<and> image_inputs ret = None))
   \<and> (ScheduleBatch.forward_mode batch \<in> {EXTEND, MIXED, PREFILL} \<and> reqs batch \<noteq> []
        \<and> (\<exists>pl el. prefix_lens_cpu batch = Some pl \<and> length (reqs batch) \<le> length pl
              \<and> list_all nonneg_int64 pl
              \<and> extend_lens_cpu batch = Some el \<and> list_all int64_range el) \<longrightarrow>
          (\<exists>ret. from_schedule_batch lib batch = Inr ret
             \<and> InputMetadata.return_logprob ret = ScheduleBatch.return_logprob batch
             \<and> InputMetadata.top_logprobs_nums ret = ScheduleBatch.top_logprobs_nums batch
             \<and> lora_paths ret = Some (map lora_path (reqs batch))
             \<and> extend_seq_lens_cpu ret = extend_lens_cpu batch
             \<and> extend_seq_lens_cpu ret \<noteq> None
             \<and> InputMetadata.extend_logprob_start_lens_cpu ret
                 = ScheduleBatch.extend_logprob_start_lens_cpu batch
             \<and> image_inputs ret = Some (map Req.image_inputs (reqs batch))))
   \<and> (\<forall>ret. from_schedule_batch lib batch = Inr ret \<longrightarrow>
         InputMetadata.return_logprob ret = ScheduleBatch.return_logprob batch
         \<and> InputMetadata.top_logprobs_nums ret = ScheduleBatch.top_logprobs_nums batch
         \<and> lora_paths ret = Some (map lora_path (reqs batch))
         \<and> (ScheduleBatch.forward_mode batch \<noteq> DECODE \<longrightarrow>
               extend_seq_lens_cpu ret = extend_lens_cpu batch
               \<and> extend_seq_lens_cpu ret \<noteq> None
               \<and> InputMetadata.extend_logprob_start_lens_cpu ret
                   = ScheduleBatch.extend_logprob_start_lens_cpu batch
               \<and> image_inputs ret = Some (map Req.image_inputs (reqs batch))))"
proof -
  have fields: "InputMetadata.return_logprob ret = ScheduleBatch.return_logprob batch
         \<and> InputMetadata.top_logprobs_nums ret = ScheduleBatch.top_logprobs_nums batch
         \<and> lora_paths ret = Some (map lora_path (reqs batch))
         \<and> extend_seq_lens_cpu ret = extend_lens_cpu batch
         \<and> extend_seq_lens_cpu ret \<noteq> None
         \<and> InputMetadata.extend_logprob_start_lens_cpu ret
                   = ScheduleBatch.extend_logprob_start_lens_cpu batch
         \<and> image_inputs ret = Some (map Req.image_inputs (reqs batch))"
    if "ScheduleBatch.forward_mode batch \<noteq> DECODE" "from_schedule_batch lib batch = Inr ret"
    for ret
    using extend_result [OF that] by auto
  have decode: "\<exists>ret. from_schedule_batch lib batch = Inr ret
         \<and> InputMetadata.return_logprob ret = ScheduleBatch.return_logprob batch
         \<and> InputMetadata.top_logprobs_nums ret = ScheduleBatch.top_logprobs_nums batch
         \<and> lora_paths ret = Some (map lora_path (reqs batch))
         \<and> extend_seq_lens_cpu ret = None
         \<and> InputMetadata.extend_logprob_start_lens_cpu ret = None
         \<and> image_inputs ret = None"
    if "ScheduleBatch.forward_mode batch = DECODE"
    by (simp add: decode_result [OF that])
  have extend: "\<exists>ret. from_schedule_batch lib batch = Inr ret
             \<and> InputMetadata.return_logprob ret = ScheduleBatch.return_logprob batch
             \<and> InputMetadata.top_logprobs_nums ret = ScheduleBatch.top_logprobs_nums batch
             \<and> lora_paths ret = Some (map lora_path (reqs batch))
             \<and> extend_seq_lens_cpu ret = extend_lens_cpu batch
             \<and> extend_seq_lens_cpu ret \<noteq> None
             \<and> InputMetadata.extend_logprob_start_lens_cpu ret
                 = ScheduleBatch.extend_logprob_start_lens_cpu batch
             \<and> image_inputs ret = Some (map Req.image_inputs (reqs batch))"
    if m: "ScheduleBatch.forward_mode batch \<in> {EXTEND, MIXED, PREFILL}"
      and r: "reqs batch \<noteq> []"
      and h: "prefix_lens_cpu batch = Some pl" "length (reqs batch) \<le> length pl"
        "list_all nonneg_int64 pl" "extend_lens_cpu batch = Some el" "list_all int64_range el"
    for pl el
  proof -
    note nd = extend_bearing_not_decode [OF m]
    from extend_assembles [OF nd r h] obtain ret where
      ret: "from_schedule_batch lib batch = Inr ret" by blast
    from fields [OF nd ret] ret show ?thesis by blast
  qed
  have all_modes: "InputMetadata.return_logprob ret = ScheduleBatch.return_logprob batch
         \<and> InputMetadata.top_logprobs_nums ret = ScheduleBatch.top_logprobs_nums batch
         \<and> lora_paths ret = Some (map lora_path (reqs batch))
         \<and> (ScheduleBatch.forward_mode batch \<noteq> DECODE \<longrightarrow>
               extend_seq_lens_cpu ret = extend_lens_cpu batch
               \<and> extend_seq_lens_cpu ret \<noteq> None
               \<and> InputMetadata.extend_logprob_start_lens_cpu ret
                   = ScheduleBatch.extend_logprob_start_lens_cpu batch
               \<and> image_inputs ret = Some (map Req.image_inputs (reqs batch)))"
    if ok: "from_schedule_batch lib batch = Inr ret" for ret
  proof (cases "ScheduleBatch.forward_mode batch = DECODE")
    case True
    with ok show ?thesis by (auto simp add: decode_result [OF True])
  next
    case False
    from fields [OF False ok] False show ?thesis by blast
  qed
  show ?thesis
    using decode extend all_modes by blast
qed

theorem logprob_mirrors_witness:
  "ScheduleBatch.forward_mode ex_decode_batch = DECODE
   \<and> ScheduleBatch.return_logprob ex_decode_batch
   \<and> from_schedule_batch ex_library ex_decode_batch = Inr ex_decode_metadata
   \<and> InputMetadata.return_logprob ex_decode_metadata
   \<and> InputMetadata.top_logprobs_nums ex_decode_metadata = Some [2, 0]
   \<and> lora_paths ex_decode_metadata = Some [None, None]
   \<and> extend_seq_lens_cpu ex_decode_metadata = None
   \<and> InputMetadata.extend_logprob_start_lens_cpu ex_decode_metadata = None
   \<and> image_inputs ex_decode_metadata = None
   \<and> ScheduleBatch.forward_mode ex_extend_batch \<in> {EXTEND, MIXED, PREFILL}
   \<and> reqs ex_extend_batch \<noteq> []
   \<and> prefix_lens_cpu ex_extend_batch = Some [0, 4, 2]
   \<and> extend_lens_cpu ex_extend_batch = Some [5, 0, 4]
   \<and> from_schedule_batch ex_library ex_extend_batch = Inr ex_extend_metadata
   \<and> \<not> InputMetadata.return_logprob ex_extend_metadata
   \<and> InputMetadata.top_logprobs_nums ex_extend_metadata = Some [0, 0, 0]
   \<and> lora_paths ex_extend_metadata = Some [None, None, None]
   \<and> extend_seq_lens_cpu ex_extend_metadata = Some [5, 0, 4]
   \<and> InputMetadata.extend_logprob_start_lens_cpu ex_extend_metadata = Some [0, 0, 0]
   \<and> image_inputs ex_extend_metadata = Some [None, None, None]"
proof -
  have d: "ScheduleBatch.forward_mode ex_decode_batch = DECODE"
    "ScheduleBatch.return_logprob ex_decode_batch"
    by (simp_all add: ex_decode_batch_def)
  with logprob_mirrors [where batch = ex_decode_batch and lib = ex_library]
  have "\<exists>ret. from_schedule_batch ex_library ex_decode_batch = Inr ret
      \<and> extend_seq_lens_cpu ret = None
      \<and> InputMetadata.extend_logprob_start_lens_cpu ret = None
      \<and> image_inputs ret = None"
    by blast
  with ex_decode_assembles have d': "extend_seq_lens_cpu ex_decode_metadata = None"
    "InputMetadata.extend_logprob_start_lens_cpu ex_decode_metadata = None"
    "image_inputs ex_decode_metadata = None"
    by auto
  have e: "ScheduleBatch.forward_mode ex_extend_batch \<in> {EXTEND, MIXED, PREFILL}"
    "reqs ex_extend_batch \<noteq> []"
    "prefix_lens_cpu ex_extend_batch = Some [0, 4, 2]"
    "extend_lens_cpu ex_extend_batch = Some [5, 0, 4]"
    by (simp_all add: ex_extend_batch_def)
  have "length (reqs ex_extend_batch) \<le> length [0, 4, 2 :: int]"
    "list_all nonneg_int64 [0, 4, 2]" "list_all int64_range [5, 0, 4]"
    by (simp_all add: ex_extend_batch_def nonneg_int64_def int64_range_def)
  with logprob_mirrors [where batch = ex_extend_batch and lib = ex_library] e
  have "\<exists>ret. from_schedule_batch ex_library ex_extend_batch = Inr ret
      \<and> extend_seq_lens_cpu ret = extend_lens_cpu ex_extend_batch
      \<and> InputMetadata.extend_logprob_start_lens_cpu ret
          = ScheduleBatch.extend_logprob_start_lens_cpu ex_extend_batch
      \<and> image_inputs ret = Some (map Req.image_inputs (reqs ex_extend_batch))
      \<and> lora_paths ret = Some (map lora_path (reqs ex_extend_batch))"
    by blast
  with ex_extend_assembles have e': "extend_seq_lens_cpu ex_extend_metadata = Some [5, 0, 4]"
    "InputMetadata.extend_logprob_start_lens_cpu ex_extend_metadata = Some [0, 0, 0]"
    "image_inputs ex_extend_metadata = Some [None, None, None]"
    "lora_paths ex_extend_metadata = Some [None, None, None]"
    by (auto simp add: ex_extend_batch_def ex_req_def)
  show ?thesis
    using d d' e e' ex_decode_assembles ex_extend_assembles
    by (simp add: ex_decode_metadata_def ex_extend_metadata_def)
qed

section \<open>Determinism and the frame of assembly\<close>

lemma in_store_decode:
  assumes "ScheduleBatch.forward_mode batch = DECODE"
  shows "from_schedule_batch_in_store lib batch s =
     Inr (\<lparr>InputMetadata.forward_mode = DECODE,
          batch_size = length (reqs batch),
          input_ids = ScheduleBatch.input_ids batch,
          req_pool_indices = ScheduleBatch.req_pool_indices batch,
          seq_lens = ScheduleBatch.seq_lens batch,
          out_cache_loc = ScheduleBatch.out_cache_loc batch,
          positions = Some (length s),
          extend_seq_lens = None,
          extend_prefix_lens = None,
          extend_start_loc = None,
          return_logprob = ScheduleBatch.return_logprob batch,
          top_logprobs_nums = ScheduleBatch.top_logprobs_nums batch,
          extend_seq_lens_cpu = None,
          extend_logprob_start_lens_cpu = None,
          image_inputs = None,
          lora_paths = Some (map lora_path (reqs batch)),
          req_to_token_pool = None,
          token_to_kv_pool = None,
          attn_backend = None\<rparr>,
        s @ [tensor_to_int64 (tensor_sub_scalar (s ! ScheduleBatch.seq_lens batch) 1)])"
  using assms
  by (simp add: from_schedule_batch_in_store_def is_decode_iff ScheduleBatch_batch_size_def
      alloc_def)

lemma in_store_extend:
  assumes "ScheduleBatch.forward_mode batch \<noteq> DECODE"
  shows "from_schedule_batch_in_store lib batch s =
     (case position_ranges lib (prefix_lens_cpu batch) 0 (reqs batch) of
        Inl e \<Rightarrow> Inl e
      | Inr ranges \<Rightarrow>
     (case positions_tensor lib ranges of
        Inl e \<Rightarrow> Inl e
      | Inr ps \<Rightarrow>
     (case torch_tensor (extend_lens_cpu batch) of
        Inl e \<Rightarrow> Inl e
      | Inr esl \<Rightarrow>
     (case torch_tensor (prefix_lens_cpu batch) of
        Inl e \<Rightarrow> Inl e
      | Inr epl \<Rightarrow>
        Inr (\<lparr>InputMetadata.forward_mode = ScheduleBatch.forward_mode batch,
          batch_size = length (reqs batch),
          input_ids = ScheduleBatch.input_ids batch,
          req_pool_indices = ScheduleBatch.req_pool_indices batch,
          seq_lens = ScheduleBatch.seq_lens batch,
          out_cache_loc = ScheduleBatch.out_cache_loc batch,
          positions = Some (length s),
          extend_seq_lens = Some (length s + 1),
          extend_prefix_lens = Some (length s + 2),
          extend_start_loc = Some (length s + 3),
          return_logprob = ScheduleBatch.return_logprob batch,
          top_logprobs_nums = ScheduleBatch.top_logprobs_nums batch,
          extend_seq_lens_cpu = extend_lens_cpu batch,
          extend_logprob_start_lens_cpu = ScheduleBatch.extend_logprob_start_lens_cpu batch,
          image_inputs = Some (map Req.image_inputs (reqs batch)),
          lora_paths = Some (map lora_path (reqs batch)),
          req_to_token_pool = None,
          token_to_kv_pool = None,
          attn_backend = None\<rparr>,
        s @ [ps, esl, epl,
             setitem_from_1 (zeros_like esl) (torch_cumsum (slice_to_last esl))])))))"
  using assms
  by (simp add: from_schedule_batch_in_store_def is_decode_iff ScheduleBatch_batch_size_def
      alloc_def Let_def nth_append list_update_append split: sum.splits)

lemma pure_extend:
  assumes "ScheduleBatch.forward_mode batch \<noteq> DECODE"
  shows "from_schedule_batch lib batch =
     (case position_ranges lib (prefix_lens_cpu batch) 0 (reqs batch) of
        Inl e \<Rightarrow> Inl e
      | Inr ranges \<Rightarrow>
     (case positions_tensor lib ranges of
        Inl e \<Rightarrow> Inl e
      | Inr ps \<Rightarrow>
     (case torch_tensor (extend_lens_cpu batch) of
        Inl e \<Rightarrow> Inl e
      | Inr esl \<Rightarrow>
     (case torch_tensor (prefix_lens_cpu batch) of
        Inl e \<Rightarrow> Inl e
      | Inr epl \<Rightarrow>
        Inr \<lparr>InputMetadata.forward_mode = ScheduleBatch.forward_mode batch,
          batch_size = length (reqs batch),
          input_ids = ScheduleBatch.input_ids batch,
          req_pool_indices = ScheduleBatch.req_pool_indices batch,
          seq_lens = ScheduleBatch.seq_lens batch,
          out_cache_loc = ScheduleBatch.out_cache_loc batch,
          positions = Some (ps),
          extend_seq_lens = Some esl,
          extend_prefix_lens = Some epl,
          extend_start_loc = Some (setitem_from_1 (zeros_like esl) (torch_cumsum (slice_to_last esl))),
          return_logprob = ScheduleBatch.return_logprob batch,
          top_logprobs_nums = ScheduleBatch.top_logprobs_nums batch,
          extend_seq_lens_cpu = extend_lens_cpu batch,
          extend_logprob_start_lens_cpu = ScheduleBatch.extend_logprob_start_lens_cpu batch,
          image_inputs = Some (map Req.image_inputs (reqs batch)),
          lora_paths = Some (map lora_path (reqs batch)),
          req_to_token_pool = None,
          token_to_kv_pool = None,
          attn_backend = None\<rparr>))))"
  using assms
  by (simp add: from_schedule_batch_def is_decode_iff ScheduleBatch_batch_size_def
      split: sum.splits)

lemma load_batch_sel:
  "ScheduleBatch.forward_mode (load_batch s batch) = ScheduleBatch.forward_mode batch"
  "reqs (load_batch s batch) = reqs batch"
  "ScheduleBatch.input_ids (load_batch s batch) = s ! ScheduleBatch.input_ids batch"
  "ScheduleBatch.req_pool_indices (load_batch s batch) = s ! ScheduleBatch.req_pool_indices batch"
  "ScheduleBatch.seq_lens (load_batch s batch) = s ! ScheduleBatch.seq_lens batch"
  "ScheduleBatch.out_cache_loc (load_batch s batch) = s ! ScheduleBatch.out_cache_loc batch"
  "ScheduleBatch.return_logprob (load_batch s batch) = ScheduleBatch.return_logprob batch"
  "ScheduleBatch.top_logprobs_nums (load_batch s batch) = ScheduleBatch.top_logprobs_nums batch"
  "prefix_lens_cpu (load_batch s batch) = prefix_lens_cpu batch"
  "extend_lens_cpu (load_batch s batch) = extend_lens_cpu batch"
  "ScheduleBatch.extend_logprob_start_lens_cpu (load_batch s batch)
     = ScheduleBatch.extend_logprob_start_lens_cpu batch"
  by (simp_all add: load_batch_def)

lemma load_batch_append:
  "batch_in_store s batch \<Longrightarrow> load_batch (s @ new) batch = load_batch s batch"
  by (simp add: load_batch_def batch_in_store_def nth_append)

lemma batch_in_store_append:
  "batch_in_store s batch \<Longrightarrow> batch_in_store (s @ new) batch"
  by (simp add: batch_in_store_def)

lemma load_metadata_append:
  "metadata_in_store s ret \<Longrightarrow> load_metadata (s @ new) ret = load_metadata s ret"
  by (auto simp add: load_metadata_def metadata_in_store_def addr_in_store_def nth_append
      split: option.splits)

lemma in_store_error:
  "from_schedule_batch_in_store lib batch s = Inl e \<longleftrightarrow>
     from_schedule_batch lib (load_batch s batch) = Inl e"
proof (cases "ScheduleBatch.forward_mode batch = DECODE")
  case True
  then have "ScheduleBatch.forward_mode (load_batch s batch) = DECODE"
    by (simp add: load_batch_def)
  from decode_result [OF this] in_store_decode [OF True, of lib s] show ?thesis by simp
next
  case False
  then have f: "ScheduleBatch.forward_mode (load_batch s batch) \<noteq> DECODE"
    by (simp add: load_batch_def)
  show ?thesis
    by (simp add: pure_extend [OF f] in_store_extend [OF False] load_batch_sel
        split: sum.splits)
qed

lemma in_store_sound:
  assumes wf: "batch_in_store s batch"
    and run: "from_schedule_batch_in_store lib batch s = Inr (ret, s')"
  shows "(\<exists>new. s' = s @ new)
     \<and> from_schedule_batch lib (load_batch s batch) = Inr (load_metadata s' ret)
     \<and> metadata_in_store s' ret"
proof (cases "ScheduleBatch.forward_mode batch = DECODE")
  case True
  then have d: "ScheduleBatch.forward_mode (load_batch s batch) = DECODE"
    by (simp add: load_batch_def)
  from run in_store_decode [OF True, of lib s] have
    s': "s' = s @ [tensor_to_int64 (tensor_sub_scalar (s ! ScheduleBatch.seq_lens batch) 1)]"
    and ret: "ret = \<lparr>InputMetadata.forward_mode = DECODE,
          batch_size = length (reqs batch),
          input_ids = ScheduleBatch.input_ids batch,
          req_pool_indices = ScheduleBatch.req_pool_indices batch,
          seq_lens = ScheduleBatch.seq_lens batch,
          out_cache_loc = ScheduleBatch.out_cache_loc batch,
          positions = Some (length s),
          extend_seq_lens = None,
          extend_prefix_lens = None,
          extend_start_loc = None,
          return_logprob = ScheduleBatch.return_logprob batch,
          top_logprobs_nums = ScheduleBatch.top_logprobs_nums batch,
          extend_seq_lens_cpu = None,
          extend_logprob_start_lens_cpu = None,
          image_inputs = None,
          lora_paths = Some (map lora_path (reqs batch)),
          req_to_token_pool = None,
          token_to_kv_pool = None,
          attn_backend = None\<rparr>"
    by simp_all
  have "from_schedule_batch lib (load_batch s batch) = Inr (load_metadata s' ret)"
    using wf
    by (simp add: decode_result [OF d] s' ret load_metadata_def load_batch_sel
        batch_in_store_def nth_append)
  moreover have "metadata_in_store s' ret"
    using wf by (simp add: s' ret metadata_in_store_def addr_in_store_def batch_in_store_def)
  ultimately show ?thesis using s' by blast
next
  case False
  then have f: "ScheduleBatch.forward_mode (load_batch s batch) \<noteq> DECODE"
    by (simp add: load_batch_def)
  from run obtain ranges ps esl epl where
    steps: "position_ranges lib (prefix_lens_cpu batch) 0 (reqs batch) = Inr ranges"
      "positions_tensor lib ranges = Inr ps"
      "torch_tensor (extend_lens_cpu batch) = Inr esl"
      "torch_tensor (prefix_lens_cpu batch) = Inr epl"
    by (auto simp add: in_store_extend [OF False] split: sum.splits)
  from run steps have
    s': "s' = s @ [ps, esl, epl,
             setitem_from_1 (zeros_like esl) (torch_cumsum (slice_to_last esl))]"
    and ret: "ret = \<lparr>InputMetadata.forward_mode = ScheduleBatch.forward_mode batch,
          batch_size = length (reqs batch),
          input_ids = ScheduleBatch.input_ids batch,
          req_pool_indices = ScheduleBatch.req_pool_indices batch,
          seq_lens = ScheduleBatch.seq_lens batch,
          out_cache_loc = ScheduleBatch.out_cache_loc batch,
          positions = Some (length s),
          extend_seq_lens = Some (length s + 1),
          extend_prefix_lens = Some (length s + 2),
          extend_start_loc = Some (length s + 3),
          return_logprob = ScheduleBatch.return_logprob batch,
          top_logprobs_nums = ScheduleBatch.top_logprobs_nums batch,
          extend_seq_lens_cpu = extend_lens_cpu batch,
          extend_logprob_start_lens_cpu = ScheduleBatch.extend_logprob_start_lens_cpu batch,
          image_inputs = Some (map Req.image_inputs (reqs batch)),
          lora_paths = Some (map lora_path (reqs batch)),
          req_to_token_pool = None,
          token_to_kv_pool = None,
          attn_backend = None\<rparr>"
    by (simp_all add: in_store_extend [OF False])
  have "from_schedule_batch lib (load_batch s batch) = Inr (load_metadata s' ret)"
    using wf steps
    by (simp add: pure_extend [OF f] s' ret load_metadata_def load_batch_sel
        batch_in_store_def nth_append)
  moreover have "metadata_in_store s' ret"
    using wf by (simp add: s' ret metadata_in_store_def addr_in_store_def batch_in_store_def)
  ultimately show ?thesis using s' by blast
qed

text \<open>
  C9. Take a batch whose tensors are in the store. Assembly is a function of the batch
  and of the tensors it refers to: it fails exactly when assembly of the batch's values
  fails, with that error, and otherwise its record, read through the new store, is the
  record assembled from the batch's values. A call that succeeds only adds tensors to
  the store: every tensor that was there, so every tensor of the batch, is unchanged,
  and the batch reads as before. A second call on the same batch therefore succeeds
  too and its record holds the same values as the first, which the second call leaves
  as they were.
\<close>

theorem assembly_deterministic_and_frame:
  assumes wf: "batch_in_store s batch"
  shows "(\<forall>e. from_schedule_batch_in_store lib batch s = Inl e \<longleftrightarrow>
            from_schedule_batch lib (load_batch s batch) = Inl e)
     \<and> (\<forall>ret s'. from_schedule_batch_in_store lib batch s = Inr (ret, s') \<longrightarrow>
           take (length s) s' = s
           \<and> load_batch s' batch = load_batch s batch
           \<and> from_schedule_batch lib (load_batch s batch) = Inr (load_metadata s' ret)
           \<and> (\<exists>ret2 s2. from_schedule_batch_in_store lib batch s' = Inr (ret2, s2)
                 \<and> load_metadata s2 ret2 = load_metadata s' ret
                 \<and> load_metadata s2 ret = load_metadata s' ret
                 \<and> load_batch s2 batch = load_batch s batch))"
proof (intro conjI allI impI)
  fix e
  show "from_schedule_batch_in_store lib batch s = Inl e \<longleftrightarrow>
      from_schedule_batch lib (load_batch s batch) = Inl e"
    by (rule in_store_error)
next
  fix ret s'
  assume run: "from_schedule_batch_in_store lib batch s = Inr (ret, s')"
  from in_store_sound [OF wf run] obtain new where
    s': "s' = s @ new"
    and pure: "from_schedule_batch lib (load_batch s batch) = Inr (load_metadata s' ret)"
    and ret: "metadata_in_store s' ret"
    by blast
  have wf': "batch_in_store s' batch"
    using wf s' by (simp add: batch_in_store_append)
  have same: "load_batch s' batch = load_batch s batch"
    using wf s' by (simp add: load_batch_append)
  show "take (length s) s' = s"
    using s' by simp
  show "load_batch s' batch = load_batch s batch"
    by (rule same)
  show "from_schedule_batch lib (load_batch s batch) = Inr (load_metadata s' ret)"
    by (rule pure)
  show "\<exists>ret2 s2. from_schedule_batch_in_store lib batch s' = Inr (ret2, s2)
      \<and> load_metadata s2 ret2 = load_metadata s' ret
      \<and> load_metadata s2 ret = load_metadata s' ret
      \<and> load_batch s2 batch = load_batch s batch"
  proof (cases "from_schedule_batch_in_store lib batch s'")
    case (Inl e)
    then have "from_schedule_batch lib (load_batch s' batch) = Inl e"
      by (simp add: in_store_error)
    with pure same show ?thesis by simp
  next
    case (Inr r)
    obtain ret2 s2 where r: "r = (ret2, s2)" by (cases r)
    with Inr have run2: "from_schedule_batch_in_store lib batch s' = Inr (ret2, s2)" by simp
    from in_store_sound [OF wf' run2] obtain new2 where
      s2: "s2 = s' @ new2"
      and pure2: "from_schedule_batch lib (load_batch s' batch) = Inr (load_metadata s2 ret2)"
      by blast
    have "load_metadata s2 ret2 = load_metadata s' ret"
      using pure pure2 same by simp
    moreover have "load_metadata s2 ret = load_metadata s' ret"
      using ret s2 by (simp add: load_metadata_append)
    moreover have "load_batch s2 batch = load_batch s batch"
      using wf' s2 same by (simp add: load_batch_append)
    ultimately show ?thesis using run2 by blast
  qed
qed

lemma ex_stored_assembles:
  "from_schedule_batch_in_store ex_library ex_stored_batch ex_store
     = Inr (ex_stored_metadata, ex_store_after)"
  by (simp add: from_schedule_batch_in_store_def ex_stored_batch_def ex_store_def
      ex_stored_metadata_def ex_store_after_def ex_req_def alloc_def Let_def
      is_decode_def ScheduleBatch_batch_size_def np_arange_def nonneg_int64_def
      int64_range_def positions_tensor_def np_concatenate_def torch_tensor_def upto.simps)

theorem assembly_deterministic_and_frame_witness:
  "batch_in_store ex_store ex_stored_batch
   \<and> load_batch ex_store ex_stored_batch = ex_extend_batch
   \<and> from_schedule_batch_in_store ex_library ex_stored_batch ex_store
       = Inr (ex_stored_metadata, ex_store_after)
   \<and> take (length ex_store) ex_store_after = ex_store
   \<and> load_batch ex_store_after ex_stored_batch = ex_extend_batch
   \<and> load_metadata ex_store_after ex_stored_metadata = ex_extend_metadata
   \<and> (\<exists>ret2 s2. from_schedule_batch_in_store ex_library ex_stored_batch ex_store_after = Inr (ret2, s2)
         \<and> load_metadata s2 ret2 = ex_extend_metadata
         \<and> load_metadata s2 ex_stored_metadata = ex_extend_metadata
         \<and> load_batch s2 ex_stored_batch = ex_extend_batch)"
proof -
  have wf: "batch_in_store ex_store ex_stored_batch"
    by (simp add: batch_in_store_def ex_store_def ex_stored_batch_def)
  have b: "load_batch ex_store ex_stored_batch = ex_extend_batch"
    by (simp add: load_batch_def ex_store_def ex_stored_batch_def ex_extend_batch_def)
  have m: "load_metadata ex_store_after ex_stored_metadata = ex_extend_metadata"
    by (simp add: load_metadata_def ex_store_after_def ex_store_def ex_stored_metadata_def
        ex_extend_metadata_def)
  show ?thesis
    using assembly_deterministic_and_frame [where lib = ex_library, OF wf]
      ex_stored_assembles wf b m
    by simp
qed

end
